theory Spec2Isabelle
  imports Main
begin

section \<open>Python values used by the two scripts\<close>

text \<open>
  The repository holds two command-line scripts, \<^verbatim>\<open>clients/httpx/main.py\<close> and
  \<^verbatim>\<open>clients/httpx/test_function.py\<close>. Both read the environment, build a payment-aware
  HTTP client of the external x402 library, issue one GET request and print a report.

  A Python \<open>str\<close> is a HOL \<open>string\<close>, one \<open>char\<close> for one character; the characters of
  data (environment values, command-line tokens, header names and values, bodies) are
  the code points below 256. The emoji of the scripts' fixed messages lie outside that
  range: they are the constants below, holding the UTF-8 bytes the source files hold.
  They are only ever printed, never measured.
\<close>

definition emoji_globe :: string where
  "emoji_globe = [CHR 0xF0, CHR 0x9F, CHR 0x8C, CHR 0x90]"

definition emoji_antenna :: string where
  "emoji_antenna = [CHR 0xF0, CHR 0x9F, CHR 0x93, CHR 0xA1]"

definition emoji_lock :: string where
  "emoji_lock = [CHR 0xF0, CHR 0x9F, CHR 0x94, CHR 0x90]"

definition emoji_clipboard :: string where
  "emoji_clipboard = [CHR 0xF0, CHR 0x9F, CHR 0x93, CHR 0x8B]"

definition emoji_package :: string where
  "emoji_package = [CHR 0xF0, CHR 0x9F, CHR 0x93, CHR 0xA6]"

definition emoji_memo :: string where
  "emoji_memo = [CHR 0xF0, CHR 0x9F, CHR 0x93, CHR 0x9D]"

definition emoji_test_tube :: string where
  "emoji_test_tube = [CHR 0xF0, CHR 0x9F, CHR 0xA7, CHR 0xAA]"

definition emoji_check :: string where
  "emoji_check = [CHR 0xE2, CHR 0x9C, CHR 0x85]"

definition emoji_cross :: string where
  "emoji_cross = [CHR 0xE2, CHR 0x9D, CHR 0x8C]"

definition emoji_warning :: string where
  "emoji_warning = [CHR 0xE2, CHR 0x9A, CHR 0xA0, CHR 0xEF, CHR 0xB8, CHR 0x8F]"

subsection \<open>Truthiness, \<open>or\<close>, \<open>str.lower\<close>, \<open>in\<close>\<close>

text \<open>\<open>os.getenv\<close> returns \<open>None\<close> or a string; \<open>not v\<close> holds for \<open>None\<close> and for \<open>""\<close>.\<close>

fun truthy :: "string option \<Rightarrow> bool" where
  "truthy None = False"
| "truthy (Some s) = (s \<noteq> [])"

text \<open>\<open>v or d\<close> for an optional string \<open>v\<close> and a string \<open>d\<close>.\<close>

fun py_or :: "string option \<Rightarrow> string \<Rightarrow> string" where
  "py_or None d = d"
| "py_or (Some s) d = (if s \<noteq> [] then s else d)"

definition ascii_lowercase :: string where
  "ascii_lowercase = ''abcdefghijklmnopqrstuvwxyz''"

definition latin1_small :: string where
  "latin1_small =
     [CHR 0xE0, CHR 0xE1, CHR 0xE2, CHR 0xE3, CHR 0xE4, CHR 0xE5, CHR 0xE6, CHR 0xE7,
      CHR 0xE8, CHR 0xE9, CHR 0xEA, CHR 0xEB, CHR 0xEC, CHR 0xED, CHR 0xEE, CHR 0xEF,
      CHR 0xF0, CHR 0xF1, CHR 0xF2, CHR 0xF3, CHR 0xF4, CHR 0xF5, CHR 0xF6, CHR 0xF7,
      CHR 0xF8, CHR 0xF9, CHR 0xFA, CHR 0xFB, CHR 0xFC, CHR 0xFD, CHR 0xFE]"

text \<open>
  \<open>str.lower\<close> on code points below 256: the letters A to Z (65 to 90) and the Latin-1
  capitals (192 to 222, the multiplication sign 215 apart) move to their small forms,
  32 code points up; every other character stays. The small forms are read from the
  tables above, which start at the code points 97 and 224.
\<close>

definition lower_char :: "char \<Rightarrow> char" where
  "lower_char c =
     (let n = (of_char c :: nat) in
      if 65 \<le> n \<and> n \<le> 90 then ascii_lowercase ! (n - 65)
      else if 192 \<le> n \<and> n \<le> 222 \<and> n \<noteq> 215 then latin1_small ! (n - 192)
      else c)"

definition lower :: "string \<Rightarrow> string" where
  "lower s = map lower_char s"

text \<open>\<open>s.startswith(p)\<close> and the substring test \<open>sub in s\<close>.\<close>

primrec startswith :: "string \<Rightarrow> string \<Rightarrow> bool" where
  "startswith [] p = (p = [])"
| "startswith (c # cs) p = (case p of [] \<Rightarrow> True | d # ds \<Rightarrow> c = d \<and> startswith cs ds)"

primrec py_in :: "string \<Rightarrow> string \<Rightarrow> bool" where
  "py_in sub [] = (sub = [])"
| "py_in sub (c # cs) = (startswith (c # cs) sub \<or> py_in sub cs)"

subsection \<open>\<open>str\<close> of an integer\<close>

function str_nat :: "nat \<Rightarrow> string" where
  "str_nat n = (if n < 10 then [''0123456789'' ! n]
                else str_nat (n div 10) @ [''0123456789'' ! (n mod 10)])"
  by pat_completeness auto
termination
  by (relation "measure id") auto

declare str_nat.simps [simp del]

definition str_int :: "int \<Rightarrow> string" where
  "str_int i = (if i < 0 then CHR ''-'' # str_nat (nat (- i)) else str_nat (nat i))"

subsection \<open>\<open>repr\<close> of strings, lists and dictionaries\<close>

text \<open>
  An insertion-ordered \<open>dict\<close> with string keys is an association list with distinct
  keys, in insertion order. \<open>d[k] = v\<close> overwrites the value of a present key where it
  stands and appends a new key; \<open>{**a, **b}\<close> stores the items of \<open>b\<close>, in order, into a
  copy of \<open>a\<close>.
\<close>

type_synonym 'v dict = "(string \<times> 'v) list"

fun dict_set :: "'v dict \<Rightarrow> string \<Rightarrow> 'v \<Rightarrow> 'v dict" where
  "dict_set [] k v = [(k, v)]"
| "dict_set ((k', v') # d) k v = (if k' = k then (k', v) # d else (k', v') # dict_set d k v)"

definition dict_merge :: "'v dict \<Rightarrow> 'v dict \<Rightarrow> 'v dict" where
  "dict_merge a b = foldl (\<lambda>d (k, v). dict_set d k v) a b"

definition dict_keys :: "'v dict \<Rightarrow> string list" where
  "dict_keys d = map fst d"

text \<open>\<open>sep.join(xs)\<close>.\<close>

fun join :: "string \<Rightarrow> string list \<Rightarrow> string" where
  "join sep [] = []"
| "join sep [x] = x"
| "join sep (x # y # ys) = x @ sep @ join sep (y # ys)"

definition hex_lower :: "nat \<Rightarrow> string" where
  "hex_lower n = [''0123456789abcdef'' ! (n div 16), ''0123456789abcdef'' ! (n mod 16)]"

text \<open>
  The characters \<open>repr\<close> escapes as \<open>\xhh\<close>: the controls below the space, DEL, and of
  the code points from 128 the controls 0x80 to 0x9F, the no-break space and the soft
  hyphen (the ones \<open>str.isprintable\<close> refuses).
\<close>

definition nonprintable :: "char \<Rightarrow> bool" where
  "nonprintable c = (let n = (of_char c :: nat) in
     n < 32 \<or> n = 127 \<or> (128 \<le> n \<and> n \<le> 160) \<or> n = 173)"

definition repr_char :: "char \<Rightarrow> char \<Rightarrow> string" where
  "repr_char q c =
     (if c = q \<or> c = CHR 0x5C then [CHR 0x5C, c]
      else if c = CHR 0x09 then [CHR 0x5C, CHR ''t'']
      else if c = CHR 0x0A then [CHR 0x5C, CHR ''n'']
      else if c = CHR 0x0D then [CHR 0x5C, CHR ''r'']
      else if nonprintable c then [CHR 0x5C, CHR ''x''] @ hex_lower (of_char c)
      else [c])"

text \<open>
  \<open>repr(s)\<close>: single quotes, unless the string holds a single quote and no double
  quote.
\<close>

definition repr_str :: "string \<Rightarrow> string" where
  "repr_str s =
     (let q = (if CHR 0x27 \<in> set s \<and> CHR 0x22 \<notin> set s then CHR 0x22 else CHR 0x27)
      in [q] @ concat (map (repr_char q) s) @ [q])"

definition repr_list :: "string list \<Rightarrow> string" where
  "repr_list xs = ''['' @ join '', '' (map repr_str xs) @ '']''"

definition repr_dict :: "string dict \<Rightarrow> string" where
  "repr_dict d = ''{'' @ join '', '' (map (\<lambda>(k, v). repr_str k @ '': '' @ repr_str v) d) @ ''}''"

subsection \<open>\<open>urllib.parse.urlencode\<close>\<close>

definition hex_upper :: "nat \<Rightarrow> string" where
  "hex_upper n = [''0123456789ABCDEF'' ! (n div 16), ''0123456789ABCDEF'' ! (n mod 16)]"

text \<open>
  \<open>quote_plus\<close>: letters, digits and \<open>_.-~\<close> stay, a space becomes \<open>+\<close>, every other
  character becomes \<open>%XX\<close> for each byte of its UTF-8 encoding (one byte below 128, two
  bytes from 128 to 255).
\<close>

definition always_safe :: string where
  "always_safe = ''ABCDEFGHIJKLMNOPQRSTUVWXYZabcdefghijklmnopqrstuvwxyz0123456789_.-~''"

definition quote_char :: "char \<Rightarrow> string" where
  "quote_char c =
     (let n = (of_char c :: nat) in
      if c = CHR '' '' then ''+''
      else if c \<in> set always_safe then [c]
      else if n < 128 then CHR ''%'' # hex_upper n
      else CHR ''%'' # hex_upper (192 + n div 64) @ CHR ''%'' # hex_upper (128 + n mod 64))"

definition quote_plus :: "string \<Rightarrow> string" where
  "quote_plus s = concat (map quote_char s)"

text \<open>\<open>urlencode(d)\<close> of a dictionary of strings: \<open>k=v\<close> pairs, quoted, joined by \<open>&\<close>.\<close>

definition urlencode :: "string dict \<Rightarrow> string" where
  "urlencode d = join ''&'' (map (\<lambda>(k, v). quote_plus k @ ''='' @ quote_plus v) d)"

section \<open>The environment, the external libraries and what a run leaves behind\<close>

text \<open>
  The environment is the process environment after \<open>load_dotenv()\<close>; \<open>os.getenv(k)\<close> is
  \<open>env k\<close>.
\<close>

type_synonym env = "string \<rightharpoonup> string"

text \<open>
  An exception is an instance of a class derived from \<open>Exception\<close> (what a library call
  or a failed conversion raises): its class name and its \<open>str(e)\<close>.
\<close>

datatype exn = Exn (exn_class: string) (exn_str: string)

text \<open>
  What a run does, in order: a \<open>print\<close> call with its text, a traceback written for an
  exception, and a GET request handed to the payment-aware client (base URL, default
  headers, path). The client is always built with the script's own payment selector.
\<close>

datatype event = Print string | Traceback exn | Get string "string dict" string

record run =
  events :: "event list"
  exit_status :: int

text \<open>
  What \<open>decode_x_payment_response\<close> returns: a dictionary (its values as an f-string
  renders them) or a JSON value of another type, named by its type.
\<close>

datatype decoded = Dict "string \<rightharpoonup> string" | NonDict string

text \<open>
  The response object of the external HTTP library, through what the scripts read of
  it: \<open>status_code\<close>, \<open>headers.items()\<close>, the lookup behind \<open>name in headers\<close> and
  \<open>headers[name]\<close>, and \<open>(await response.aread()).decode()\<close>, which is the text of the
  body or the exception raised for it (bytes that are not UTF-8, for one).
\<close>

record response =
  status_code :: int
  headers_items :: "(string \<times> string) list"
  headers_get :: "string \<rightharpoonup> string"
  content_decoded :: "exn + string"

text \<open>
  The external collaborators: \<open>Account.from_key(k).address\<close>, the client's \<open>get\<close>
  (base URL, default headers, path), \<open>json.dumps(json.loads(s), indent=2)\<close> (\<open>None\<close> when
  it raises) and the settlement header's decoder.
\<close>

record world =
  Account_from_key :: "string \<Rightarrow> exn + string"
  client_get :: "string \<Rightarrow> string dict \<Rightarrow> string \<Rightarrow> exn + response"
  json_pretty :: "string \<Rightarrow> string option"
  decode_x_payment_response :: "string \<Rightarrow> exn + decoded"

section \<open>The payment selector\<close>

text \<open>
  \<open>custom_payment_selector\<close> of \<^verbatim>\<open>main.py\<close> (lines 33 to 50) and of
  \<^verbatim>\<open>test_function.py\<close> (lines 54 to 63). The library's
  \<open>x402Client.default_payment_requirements_selector\<close> is the first argument.
\<close>

definition main_custom_payment_selector ::
  "('a \<Rightarrow> string option \<Rightarrow> 's \<Rightarrow> 'm \<Rightarrow> 'r) \<Rightarrow> 'a \<Rightarrow> string option \<Rightarrow> 's \<Rightarrow> 'm \<Rightarrow> 'r" where
  "main_custom_payment_selector default_payment_requirements_selector
       accepts network_filter scheme_filter max_value =
     default_payment_requirements_selector accepts (Some ''base'') scheme_filter max_value"

definition tf_custom_payment_selector ::
  "('a \<Rightarrow> string option \<Rightarrow> 's \<Rightarrow> 'm \<Rightarrow> 'r) \<Rightarrow> 'a \<Rightarrow> string option \<Rightarrow> 's \<Rightarrow> 'm \<Rightarrow> 'r" where
  "tf_custom_payment_selector default_payment_requirements_selector
       accepts network_filter scheme_filter max_value =
     default_payment_requirements_selector accepts (Some ''base'') scheme_filter max_value"

section \<open>The report, shared by both scripts\<close>

definition build_headers :: "string option \<Rightarrow> string dict" where
  "build_headers supabase_anon_key =
     (if truthy supabase_anon_key
      then dict_set (dict_set [] ''Authorization'' (''Bearer '' @ the supabase_anon_key))
             ''Content-Type'' ''application/json''
      else [])"

definition rule60 :: string where
  "rule60 = replicate 60 (CHR ''='')"

text \<open>The header loop (\<^verbatim>\<open>main.py\<close> 84 to 88, \<^verbatim>\<open>test_function.py\<close> 171 to 173).\<close>

definition header_shown :: "string \<Rightarrow> bool" where
  "header_shown key = (py_in ''payment'' (lower key) \<or> py_in ''x-'' (lower key))"

definition header_line :: "string \<Rightarrow> string \<Rightarrow> event" where
  "header_line key v =
     (if length v > 100 then Print (''   '' @ key @ '': '' @ take 100 v @ ''...'')
      else Print (''   '' @ key @ '': '' @ v))"

fun print_headers :: "(string \<times> string) list \<Rightarrow> event list" where
  "print_headers [] = []"
| "print_headers ((key, v) # rest) =
     (if header_shown key then [header_line key v] else []) @ print_headers rest"

text \<open>The body: pretty-printed JSON, or the first 500 characters.\<close>

definition print_body :: "world \<Rightarrow> string \<Rightarrow> event list" where
  "print_body w content_str =
     (case json_pretty w content_str of
        Some s \<Rightarrow> [Print s]
      | None \<Rightarrow> [Print (take 500 content_str)])"

text \<open>
  The headers, the body and the banner of the verification (\<^verbatim>\<open>main.py\<close> 82 to 101,
  \<^verbatim>\<open>test_function.py\<close> 170 to 187), the same lines in both scripts.
\<close>

definition report_details :: "world \<Rightarrow> response \<Rightarrow> string \<Rightarrow> event list" where
  "report_details w response content_str =
     [Print (CHR 0x0A # emoji_clipboard @ '' Response Headers:'')]
     @ print_headers (headers_items response)
     @ [Print (CHR 0x0A # emoji_package @ '' Response Body:'')]
     @ print_body w content_str
     @ [Print (CHR 0x0A # rule60), Print ''X-PAYMENT Header Verification:'', Print rule60]"

definition dict_get :: "(string \<rightharpoonup> string) \<Rightarrow> string \<Rightarrow> string \<Rightarrow> string" where
  "dict_get m k d = (case m k of Some v \<Rightarrow> v | None \<Rightarrow> d)"

definition attribute_error :: "string \<Rightarrow> exn" where
  "attribute_error tn =
     Exn ''AttributeError''
       ([CHR 0x27] @ tn @ [CHR 0x27] @ '' object has no attribute '' @ [CHR 0x27] @ ''get'' @ [CHR 0x27])"

definition settlement_title :: event where
  "settlement_title = Print (CHR 0x0A # emoji_check @ '' Payment Settlement Confirmed:'')"

definition settlement_block :: "(string \<rightharpoonup> string) \<Rightarrow> event list" where
  "settlement_block m =
     [settlement_title,
      Print (''   Transaction: '' @ dict_get m ''transaction'' ''N/A''),
      Print (''   Network: '' @ dict_get m ''network'' ''N/A''),
      Print (''   Payer: '' @ dict_get m ''payer'' ''N/A'')]"

text \<open>
  The settlement header (\<^verbatim>\<open>main.py\<close> 117 to 128, \<^verbatim>\<open>test_function.py\<close> 198 to 208);
  the scripts differ in the lines of the \<open>else\<close> branch only. The result is what was
  printed and the exception raised, if one was.
\<close>

definition settlement :: "world \<Rightarrow> response \<Rightarrow> event list \<Rightarrow> event list \<times> exn option" where
  "settlement w response absent =
     (case headers_get response ''X-Payment-Response'' of
        None \<Rightarrow> (absent, None)
      | Some h \<Rightarrow>
          (case decode_x_payment_response w h of
             Inl e \<Rightarrow> ([], Some e)
           | Inr (NonDict tn) \<Rightarrow> ([settlement_title], Some (attribute_error tn))
           | Inr (Dict m) \<Rightarrow> (settlement_block m, None)))"

text \<open>The handler \<open>except Exception as e\<close> of both scripts.\<close>

definition handle_exception :: "event list \<times> exn option \<Rightarrow> event list" where
  "handle_exception r =
     (case r of
        (out, None) \<Rightarrow> out
      | (out, Some e) \<Rightarrow>
          out @ [Print (CHR 0x0A # emoji_cross @ '' Error occurred: '' @ exn_str e), Traceback e])"

section \<open>The first script, \<^verbatim>\<open>main.py\<close>\<close>

text \<open>The chain \<open>if / elif / else\<close> on the status code (lines 102 to 114).\<close>

definition main_verification :: "int \<Rightarrow> event list" where
  "main_verification status =
     (if status = 200 then
        [Print (emoji_check @ '' Payment verified successfully!''),
         Print ''   (x402HttpxClient automatically handled the payment flow)'',
         Print ''   - Received 402 Payment Required'',
         Print ''   - Generated payment authorization'',
         Print ''   - Sent request with X-PAYMENT header'',
         Print ''   - Received 200 OK with function result'']
      else if status = 402 then
        [Print (emoji_warning @ ''  Received 402 Payment Required''),
         Print ''   This means payment was not processed correctly'',
         Print ''   Check payment requirements and wallet balance'']
      else
        [Print (emoji_warning @ ''  Unexpected status code: '' @ str_int status)])"

definition main_no_settlement :: "event list" where
  "main_no_settlement =
     [Print (CHR 0x0A # emoji_warning @ ''  No X-Payment-Response header''),
      Print ''   Payment was verified but settlement header not present'',
      Print ''   (This is normal if settlement failed but verification passed)'']"

text \<open>
  Lines 75 to 128, everything after \<open>client.get\<close> has returned a response. The flag
  \<open>x_payment_sent\<close> of the header loop is never read and is left out.
\<close>

definition main_report :: "world \<Rightarrow> response \<Rightarrow> event list \<times> exn option" where
  "main_report w response =
     (let out1 = [Print (''2. Response Status: '' @ str_int (status_code response))] in
      case content_decoded response of
        Inl e \<Rightarrow> (out1, Some e)
      | Inr content_str \<Rightarrow>
          (let out2 = out1 @ report_details w response content_str
                 @ main_verification (status_code response)
           in case settlement w response main_no_settlement of
                (out3, raised) \<Rightarrow> (out2 @ out3, raised)))"

text \<open>What \<open>main\<close> prints before the request (lines 64 to 71).\<close>

definition main_announce :: "string \<Rightarrow> string \<Rightarrow> string \<Rightarrow> event list" where
  "main_announce endpoint_path base_url address =
     [Print (emoji_globe @ '' Making request to: '' @ endpoint_path),
      Print (emoji_antenna @ '' Base URL: '' @ base_url),
      Print (emoji_lock @ '' Account: '' @ address),
      Print [],
      Print rule60,
      Print ''x402 Payment Flow:'',
      Print rule60,
      Print ''1. Initial request (expecting 402 Payment Required)...'']"

text \<open>The body of the \<open>try\<close> block of \<open>main\<close> (lines 63 to 128).\<close>

definition main_try ::
  "world \<Rightarrow> string \<Rightarrow> string dict \<Rightarrow> string \<Rightarrow> string \<Rightarrow> event list \<times> exn option" where
  "main_try w base_url headers endpoint_path address =
     (let out0 = main_announce endpoint_path base_url address
                   @ [Get base_url headers endpoint_path]
      in case client_get w base_url headers endpoint_path of
           Inl e \<Rightarrow> (out0, Some e)
         | Inr response \<Rightarrow>
             (case main_report w response of (out, raised) \<Rightarrow> (out0 @ out, raised)))"

text \<open>
  The whole script: the module-level configuration check (lines 12 to 19), the
  headers, the account, then \<open>asyncio.run(main())\<close>. An exception of
  \<open>Account.from_key\<close> is caught nowhere: the interpreter writes its traceback and exits
  with status 1.
\<close>

definition main_script :: "world \<Rightarrow> env \<Rightarrow> run" where
  "main_script w env =
     (let private_key = env ''PRIVATE_KEY'';
          base_url = env ''RESOURCE_SERVER_URL'';
          endpoint_path = env ''ENDPOINT_PATH'';
          supabase_anon_key = env ''SUPABASE_ANON_KEY''
      in if \<not> list_all truthy [private_key, base_url, endpoint_path] then
           \<lparr>events = [Print ''Error: Missing required environment variables''],
            exit_status = 1\<rparr>
         else
           (let headers = build_headers supabase_anon_key;
                out_auth = (if truthy supabase_anon_key
                            then [Print ''Using Authorization header with Supabase anon key'']
                            else [])
            in case Account_from_key w (the private_key) of
                 Inl e \<Rightarrow> \<lparr>events = out_auth @ [Traceback e], exit_status = 1\<rparr>
               | Inr address \<Rightarrow>
                   \<lparr>events = out_auth @ [Print (''Initialized account: '' @ address)]
                      @ handle_exception
                          (main_try w (the base_url) headers (the endpoint_path) address),
                    exit_status = 0\<rparr>))"

section \<open>The second script, \<^verbatim>\<open>test_function.py\<close>\<close>

record config =
  description :: string
  default_params :: "string dict"

definition FUNCTION_CONFIGS :: "config dict" where
  "FUNCTION_CONFIGS =
     [(''toolzv4'',
       \<lparr>description = ''IPv4 Network Connectivity Testing Tool'',
        default_params = [(''target'', ''8.8.8.8''), (''count'', ''4''), (''timeout'', ''5000'')]\<rparr>),
      (''url-qr-code-generator'',
       \<lparr>description = ''URL QR Code Generator'',
        default_params = [(''url'', ''https://example.com''), (''size'', ''200'')]\<rparr>),
      (''email-validator'',
       \<lparr>description =
          ''Email Validator - Validates email address format using RFC-style patterns'',
        default_params = [(''email'', ''user@example.com'')]\<rparr>)]"

text \<open>\<open>arg.split('=', 1)\<close> for an \<open>arg\<close> that holds an equals sign.\<close>

definition split_eq :: "string \<Rightarrow> string \<times> string" where
  "split_eq arg = (takeWhile (\<lambda>c. c \<noteq> CHR ''='') arg, tl (dropWhile (\<lambda>c. c \<noteq> CHR ''='') arg))"

text \<open>The loop over the tokens (lines 85 to 88 and 97 to 100).\<close>

fun parse_params :: "string list \<Rightarrow> string dict \<Rightarrow> string dict" where
  "parse_params [] params = params"
| "parse_params (arg # rest) params =
     (if CHR ''='' \<in> set arg
      then (case split_eq arg of (key, v) \<Rightarrow> parse_params rest (dict_set params key v))
      else parse_params rest params)"

definition usage :: "event list" where
  "usage =
     [Print ''Usage: python test_function.py <function_name> [param=value ...]'',
      Print (CHR 0x0A # ''Available functions:'')]
     @ concat (map (\<lambda>(func_name, config).
         [Print (''  '' @ func_name @ '': '' @ description config),
          Print (''    Default params: '' @ repr_dict (default_params config))])
        FUNCTION_CONFIGS)"

text \<open>
  \<open>parse_args\<close> (lines 66 to 102) on \<open>sys.argv[1:]\<close>: it leaves the process through
  \<open>sys.exit(1)\<close> (\<open>Inl\<close>, with what it printed) or returns the function name and the
  parameters.
\<close>

definition parse_args :: "env \<Rightarrow> string list \<Rightarrow> run + (string \<times> string dict)" where
  "parse_args env args =
     (if args = [] then Inl \<lparr>events = usage, exit_status = 1\<rparr>
      else
        (let function_name = py_or (env ''FUNCTION_NAME'') (hd args) in
         if function_name \<in> set (dict_keys FUNCTION_CONFIGS) then
           Inr (function_name,
                parse_params (if \<not> truthy (env ''FUNCTION_NAME'') then tl args else args) [])
         else if \<not> truthy (env ''FUNCTION_NAME'') then
           Inl \<lparr>events =
                 [Print (''Error: '' @ [CHR 0x27] @ function_name @ [CHR 0x27]
                         @ '' is not a known function.''),
                  Print (''Available functions: '' @ repr_list (dict_keys FUNCTION_CONFIGS))],
                exit_status = 1\<rparr>
         else Inr (the (env ''FUNCTION_NAME''), parse_params args [])))"

text \<open>The chain on the status code (lines 188 to 195) and the \<open>else\<close> of lines 206 to 208.\<close>

definition tf_verification :: "int \<Rightarrow> event list" where
  "tf_verification status =
     (if status = 200 then
        [Print (emoji_check @ '' Payment verified successfully!''),
         Print ''   (x402HttpxClient automatically handled the payment flow)'']
      else if status = 402 then
        [Print (emoji_warning @ ''  Received 402 Payment Required''),
         Print ''   Payment was not processed correctly'']
      else
        [Print (emoji_warning @ ''  Unexpected status code: '' @ str_int status)])"

definition tf_no_settlement :: "event list" where
  "tf_no_settlement =
     [Print (CHR 0x0A # emoji_warning @ ''  No X-Payment-Response header''),
      Print ''   (Payment verified but settlement header not present)'']"

text \<open>Lines 163 to 208, everything after \<open>client.get\<close> has returned a response.\<close>

definition tf_report :: "world \<Rightarrow> response \<Rightarrow> event list \<times> exn option" where
  "tf_report w response =
     (let out1 = [Print (''2. Response Status: '' @ str_int (status_code response))] in
      case content_decoded response of
        Inl e \<Rightarrow> (out1, Some e)
      | Inr content_str \<Rightarrow>
          (let out2 = out1 @ report_details w response content_str
                 @ tf_verification (status_code response)
           in case settlement w response tf_no_settlement of
                (out3, raised) \<Rightarrow> (out2 @ out3, raised)))"

text \<open>The body of the \<open>try\<close> block of \<open>test_function\<close> (lines 161 to 208).\<close>

definition tf_try :: "world \<Rightarrow> string \<Rightarrow> string dict \<Rightarrow> string \<Rightarrow> event list \<times> exn option" where
  "tf_try w base_url headers endpoint_path =
     (case client_get w base_url headers endpoint_path of
        Inl e \<Rightarrow> ([Get base_url headers endpoint_path], Some e)
      | Inr response \<Rightarrow>
          (case tf_report w response of
             (out, raised) \<Rightarrow> (Get base_url headers endpoint_path # out, raised)))"

text \<open>Lines 116 to 120: the merged parameters and the path built from them.\<close>

definition final_params_of :: "config \<Rightarrow> string dict \<Rightarrow> string dict" where
  "final_params_of config params = dict_merge (default_params config) params"

definition endpoint_path_of :: "string \<Rightarrow> string dict \<Rightarrow> string" where
  "endpoint_path_of function_name final_params =
     ''/functions/v1/'' @ function_name @ ''?'' @ urlencode final_params"

text \<open>What \<open>test_function\<close> prints before the request (lines 141 to 151).\<close>

definition tf_announce ::
  "string \<Rightarrow> config \<Rightarrow> string \<Rightarrow> string \<Rightarrow> string \<Rightarrow> string dict \<Rightarrow> event list" where
  "tf_announce function_name config endpoint_path base_url address final_params =
     [Print (emoji_test_tube @ '' Testing Function: '' @ function_name),
      Print (emoji_memo @ '' Description: '' @ description config),
      Print (emoji_globe @ '' Endpoint: '' @ endpoint_path),
      Print (emoji_antenna @ '' Base URL: '' @ base_url),
      Print (emoji_lock @ '' Account: '' @ address),
      Print (emoji_clipboard @ '' Parameters: '' @ repr_dict final_params),
      Print [],
      Print rule60,
      Print ''x402 Payment Flow:'',
      Print rule60,
      Print ''1. Initial request (expecting 402 Payment Required)...'']"

text \<open>
  \<open>test_function\<close> (lines 105 to 213): what it prints and requests, and the exception
  that leaves it, if one does. Only \<open>Account.from_key\<close> stands outside the \<open>try\<close>.
\<close>

definition test_function :: "world \<Rightarrow> env \<Rightarrow> string \<Rightarrow> string dict \<Rightarrow> event list \<times> exn option" where
  "test_function w env function_name params =
     (case map_of FUNCTION_CONFIGS function_name of
        None \<Rightarrow>
          ([Print (emoji_cross @ '' Unknown function: '' @ function_name),
            Print (''Available functions: '' @ repr_list (dict_keys FUNCTION_CONFIGS))], None)
      | Some config \<Rightarrow>
          (let final_params = final_params_of config params;
               endpoint_path = endpoint_path_of function_name final_params;
               private_key = env ''PRIVATE_KEY'';
               base_url = py_or (env ''RESOURCE_SERVER_URL'')
                            ''https://xluihnzwcmxybtygewvy.supabase.co'';
               supabase_anon_key = env ''SUPABASE_ANON_KEY''
           in if \<not> truthy private_key then
                ([Print (emoji_cross @ '' Error: PRIVATE_KEY environment variable is required''),
                  Print ''Set it in .env file or environment''], None)
              else
                (let headers = build_headers supabase_anon_key in
                 case Account_from_key w (the private_key) of
                   Inl e \<Rightarrow> ([], Some e)
                 | Inr address \<Rightarrow>
                     (tf_announce function_name config endpoint_path base_url address
                        final_params
                      @ handle_exception (tf_try w base_url headers endpoint_path), None))))"

text \<open>
  The whole script (lines 216 to 218) on \<open>sys.argv[1:]\<close>: \<open>parse_args\<close>, then
  \<open>asyncio.run(test_function(function_name, params))\<close>. A return of \<open>test_function\<close> ends
  the process with status 0, an exception that leaves it with a traceback and status 1.
\<close>

definition test_function_script :: "world \<Rightarrow> env \<Rightarrow> string list \<Rightarrow> run" where
  "test_function_script w env argv =
     (case parse_args env argv of
        Inl r \<Rightarrow> r
      | Inr (function_name, params) \<Rightarrow>
          (case test_function w env function_name params of
             (out, None) \<Rightarrow> \<lparr>events = out, exit_status = 0\<rparr>
           | (out, Some e) \<Rightarrow> \<lparr>events = out @ [Traceback e], exit_status = 1\<rparr>))"

text \<open>A run attempted network I/O when it handed a request to the client.\<close>

fun is_Get :: "event \<Rightarrow> bool" where
  "is_Get (Get b h p) = True"
| "is_Get (Print s) = False"
| "is_Get (Traceback e) = False"

definition network_calls :: "run \<Rightarrow> event list" where
  "network_calls r = filter is_Get (events r)"

section \<open>Concrete environments, responses and collaborators\<close>

text \<open>
  Inputs at which the theorems below are evaluated: an environment with the three
  required variables, responses with a settlement header (one paid, one still 402, one
  whose body is not text), and collaborators that answer every request with a given
  result.
\<close>

definition demo_env :: env where
  "demo_env = [''PRIVATE_KEY'' \<mapsto> ''0x01'', ''RESOURCE_SERVER_URL'' \<mapsto> ''https://example.com'',
               ''ENDPOINT_PATH'' \<mapsto> ''/functions/v1/toolzv4'']"

definition demo_settlement :: "string \<rightharpoonup> string" where
  "demo_settlement = [''transaction'' \<mapsto> ''0xabc'', ''network'' \<mapsto> ''base'']"

definition demo_headers :: "(string \<times> string) list" where
  "demo_headers =
     [(''content-type'', ''text/plain''),
      (''access-control-max-age'', ''600''),
      (''x-payment-response'', ''eyJ9'')]"

definition demo_response :: "int \<Rightarrow> exn + string \<Rightarrow> response" where
  "demo_response status body =
     \<lparr>status_code = status,
      headers_items = demo_headers,
      headers_get = [''X-Payment-Response'' \<mapsto> ''eyJ9''],
      content_decoded = body\<rparr>"

definition decode_error :: exn where
  "decode_error = Exn ''UnicodeDecodeError'' ''invalid start byte''"

definition connect_error :: exn where
  "connect_error = Exn ''ConnectError'' ''All connection attempts failed''"

definition demo_world :: "exn + response \<Rightarrow> world" where
  "demo_world answer =
     \<lparr>Account_from_key = (\<lambda>k. Inr ''0xA11CE''),
      client_get = (\<lambda>base_url headers path. answer),
      json_pretty = (\<lambda>s. None),
      decode_x_payment_response = (\<lambda>h. Inr (Dict demo_settlement))\<rparr>"

section \<open>The three classifications of the outcome\<close>

text \<open>
  The first line of each branch of the chain on the status code, the same in both
  scripts, and the test that an event is one of them.
\<close>

definition verified_line :: event where
  "verified_line = Print (emoji_check @ '' Payment verified successfully!'')"

definition failed_line :: event where
  "failed_line = Print (emoji_warning @ ''  Received 402 Payment Required'')"

definition unexpected_line :: "int \<Rightarrow> event" where
  "unexpected_line status = Print (emoji_warning @ ''  Unexpected status code: '' @ str_int status)"

fun is_classification :: "event \<Rightarrow> bool" where
  "is_classification (Print s) =
     (Print s = verified_line \<or> Print s = failed_line
      \<or> startswith s (emoji_warning @ ''  Unexpected status code: ''))"
| "is_classification (Traceback e) = False"
| "is_classification (Get b h p) = False"

section \<open>Helper lemmas\<close>

subsection \<open>Strings\<close>

lemma startswith_iff: "startswith s p \<longleftrightarrow> (\<exists>q. s = p @ q)"
  by (induction s arbitrary: p) (auto split: list.splits simp: Cons_eq_append_conv)

lemma startswith_nil: "startswith s []"
  by (simp add: startswith_iff)

lemma py_in_iff: "py_in sub s \<longleftrightarrow> (\<exists>p q. s = p @ sub @ q)"
proof (induction s)
  case Nil
  then show ?case by auto
next
  case (Cons c cs)
  show ?case
  proof
    assume "py_in sub (c # cs)"
    then consider "startswith (c # cs) sub" | "py_in sub cs" by auto
    then show "\<exists>p q. c # cs = p @ sub @ q"
    proof cases
      case 1
      then obtain q where "c # cs = sub @ q" using startswith_iff by blast
      then have "c # cs = [] @ sub @ q" by simp
      then show ?thesis by blast
    next
      case 2
      then obtain p q where "cs = p @ sub @ q" using Cons.IH by blast
      then have "c # cs = (c # p) @ sub @ q" by simp
      then show ?thesis by blast
    qed
  next
    assume "\<exists>p q. c # cs = p @ sub @ q"
    then obtain p q where pq: "c # cs = p @ sub @ q" by blast
    show "py_in sub (c # cs)"
    proof (cases p)
      case Nil
      with pq have "startswith (c # cs) sub" using startswith_iff by auto
      then show ?thesis by simp
    next
      case (Cons a p')
      with pq have "cs = p' @ sub @ q" by simp
      then have "py_in sub cs" using Cons.IH by blast
      then show ?thesis by simp
    qed
  qed
qed

lemma str_int_200: "str_int 200 = ''200''"
  by (simp add: str_int_def str_nat.simps)


lemma str_int_500: "str_int 500 = ''500''"
  by (simp add: str_int_def str_nat.simps)

subsection \<open>The registry\<close>

lemma registry_keys:
  "dict_keys FUNCTION_CONFIGS = [''toolzv4'', ''url-qr-code-generator'', ''email-validator'']"
  by (simp add: dict_keys_def FUNCTION_CONFIGS_def)

lemma repr_registry_keys:
  "repr_list (dict_keys FUNCTION_CONFIGS)
     = ''['toolzv4', 'url-qr-code-generator', 'email-validator']''"
  by (simp add: registry_keys repr_list_def repr_str_def repr_char_def nonprintable_def Let_def)

lemma unregistered: "name \<notin> set (dict_keys FUNCTION_CONFIGS) \<Longrightarrow> map_of FUNCTION_CONFIGS name = None"
  by (simp add: dict_keys_def map_of_eq_None_iff)

lemma toolzv4_config:
  "map_of FUNCTION_CONFIGS ''toolzv4''
     = Some \<lparr>description = ''IPv4 Network Connectivity Testing Tool'',
             default_params = [(''target'', ''8.8.8.8''), (''count'', ''4''), (''timeout'', ''5000'')]\<rparr>"
  by (simp add: FUNCTION_CONFIGS_def)

lemma usage_lines:
  "usage =
     [Print ''Usage: python test_function.py <function_name> [param=value ...]'',
      Print (CHR 0x0A # ''Available functions:''),
      Print ''  toolzv4: IPv4 Network Connectivity Testing Tool'',
      Print ''    Default params: {'target': '8.8.8.8', 'count': '4', 'timeout': '5000'}'',
      Print ''  url-qr-code-generator: URL QR Code Generator'',
      Print ''    Default params: {'url': 'https://example.com', 'size': '200'}'',
      Print ''  email-validator: Email Validator - Validates email address format using RFC-style patterns'',
      Print ''    Default params: {'email': 'user@example.com'}'']"
  by (simp add: usage_def FUNCTION_CONFIGS_def repr_dict_def repr_str_def repr_char_def
      nonprintable_def Let_def)

lemma usage_no_get: "filter is_Get usage = []"
  by (simp add: usage_lines)

subsection \<open>Where the requests of a run are\<close>

lemma print_headers_no_get: "filter is_Get (print_headers items) = []"
  by (induction items rule: print_headers.induct) (auto simp: header_line_def)

lemma report_details_no_get: "filter is_Get (report_details w r body) = []"
  by (simp add: report_details_def print_headers_no_get print_body_def split: option.splits)

lemma settlement_no_get:
  "filter is_Get absent = [] \<Longrightarrow> filter is_Get (fst (settlement w r absent)) = []"
  by (auto simp: settlement_def settlement_block_def settlement_title_def
      split: option.splits sum.splits decoded.splits)

lemma main_report_no_get: "filter is_Get (fst (main_report w r)) = []"
proof (cases "content_decoded r")
  case (Inl e)
  then show ?thesis by (simp add: main_report_def)
next
  case (Inr body)
  have n: "filter is_Get (fst (settlement w r main_no_settlement)) = []"
    by (rule settlement_no_get) (simp add: main_no_settlement_def)
  obtain out raised where s: "settlement w r main_no_settlement = (out, raised)"
    by (cases "settlement w r main_no_settlement")
  from n s have "filter is_Get out = []" by simp
  then show ?thesis
    by (simp add: main_report_def Inr s report_details_no_get main_verification_def)
qed

lemma tf_report_no_get: "filter is_Get (fst (tf_report w r)) = []"
proof (cases "content_decoded r")
  case (Inl e)
  then show ?thesis by (simp add: tf_report_def)
next
  case (Inr body)
  have n: "filter is_Get (fst (settlement w r tf_no_settlement)) = []"
    by (rule settlement_no_get) (simp add: tf_no_settlement_def)
  obtain out raised where s: "settlement w r tf_no_settlement = (out, raised)"
    by (cases "settlement w r tf_no_settlement")
  from n s have "filter is_Get out = []" by simp
  then show ?thesis
    by (simp add: tf_report_def Inr s report_details_no_get tf_verification_def)
qed

lemma handle_exception_get: "filter is_Get (handle_exception (out, raised)) = filter is_Get out"
  by (cases raised) (simp_all add: handle_exception_def)

lemma tf_try_get: "filter is_Get (handle_exception (tf_try w b h p)) = [Get b h p]"
proof (cases "client_get w b h p")
  case (Inl e)
  then show ?thesis by (simp add: tf_try_def handle_exception_def)
next
  case (Inr r)
  obtain out raised where s: "tf_report w r = (out, raised)"
    by (cases "tf_report w r")
  with tf_report_no_get [of w r] have "filter is_Get out = []" by simp
  then show ?thesis by (simp add: tf_try_def Inr s handle_exception_get)
qed

lemma main_try_get:
  "filter is_Get (handle_exception (main_try w b h p a)) = [Get b h p]"
proof (cases "client_get w b h p")
  case (Inl e)
  then show ?thesis by (simp add: main_try_def handle_exception_def main_announce_def)
next
  case (Inr r)
  obtain out raised where s: "main_report w r = (out, raised)"
    by (cases "main_report w r")
  with main_report_no_get [of w r] have "filter is_Get out = []" by simp
  then show ?thesis by (simp add: main_try_def Inr s handle_exception_get main_announce_def)
qed

lemma tf_announce_no_get: "filter is_Get (tf_announce f c p b a ps) = []"
  by (simp add: tf_announce_def)

subsection \<open>The runs of the scripts, by their branches\<close>

lemma main_script_run:
  assumes "env ''PRIVATE_KEY'' = Some pk" "pk \<noteq> []" "env ''RESOURCE_SERVER_URL'' = Some url" "url \<noteq> []"
    "env ''ENDPOINT_PATH'' = Some ep" "ep \<noteq> []" "Account_from_key w pk = Inr address"
  shows "main_script w env =
     \<lparr>events = (if truthy (env ''SUPABASE_ANON_KEY'')
                 then [Print ''Using Authorization header with Supabase anon key''] else [])
        @ [Print (''Initialized account: '' @ address)]
        @ handle_exception (main_try w url (build_headers (env ''SUPABASE_ANON_KEY'')) ep address),
      exit_status = 0\<rparr>"
  using assms by (simp add: main_script_def Let_def)

lemma test_function_run:
  assumes "map_of FUNCTION_CONFIGS fn = Some config" "env ''PRIVATE_KEY'' = Some pk" "pk \<noteq> []"
    "Account_from_key w pk = Inr address"
  shows "test_function w env fn params =
     (tf_announce fn config (endpoint_path_of fn (final_params_of config params))
        (py_or (env ''RESOURCE_SERVER_URL'') ''https://xluihnzwcmxybtygewvy.supabase.co'') address
        (final_params_of config params)
      @ handle_exception
          (tf_try w (py_or (env ''RESOURCE_SERVER_URL'') ''https://xluihnzwcmxybtygewvy.supabase.co'')
             (build_headers (env ''SUPABASE_ANON_KEY''))
             (endpoint_path_of fn (final_params_of config params))), None)"
  using assms by (simp add: test_function_def Let_def)

lemma test_function_no_key:
  assumes "map_of FUNCTION_CONFIGS fn = Some config" "\<not> truthy (env ''PRIVATE_KEY'')"
  shows "test_function w env fn params =
     ([Print (emoji_cross @ '' Error: PRIVATE_KEY environment variable is required''),
       Print ''Set it in .env file or environment''], None)"
  using assms by (simp add: test_function_def Let_def)

lemma test_function_unknown:
  assumes "map_of FUNCTION_CONFIGS fn = None"
  shows "test_function w env fn params =
     ([Print (emoji_cross @ '' Unknown function: '' @ fn),
       Print ''Available functions: ['toolzv4', 'url-qr-code-generator', 'email-validator']''], None)"
  using assms by (simp add: test_function_def repr_registry_keys)

lemma parse_args_exit:
  "parse_args env argv = Inl r \<Longrightarrow> exit_status r = 1 \<and> filter is_Get (events r) = []"
  by (auto simp: parse_args_def Let_def usage_no_get split: if_splits)

lemma parse_args_override:
  assumes "env ''FUNCTION_NAME'' = Some name" "name \<noteq> []" "argv \<noteq> []"
  shows "parse_args env argv = Inr (name, parse_params argv [])"
  using assms by (simp add: parse_args_def Let_def)

lemma test_function_no_key_any:
  assumes "\<not> truthy (env ''PRIVATE_KEY'')"
  shows "snd (test_function w env fn params) = None
         \<and> filter is_Get (fst (test_function w env fn params)) = []"
proof (cases "map_of FUNCTION_CONFIGS fn")
  case None
  then show ?thesis by (simp add: test_function_unknown)
next
  case (Some config)
  then show ?thesis using assms by (simp add: test_function_no_key)
qed

subsection \<open>Merging dictionaries keeps the order of the first\<close>

lemma dict_keys_set:
  "dict_keys (dict_set d k v) = (if k \<in> set (dict_keys d) then dict_keys d else dict_keys d @ [k])"
proof (induction d)
  case Nil
  then show ?case by (simp add: dict_keys_def)
next
  case (Cons x d)
  obtain k' v' where x: "x = (k', v')" by (cases x)
  from Cons show ?case
    by (cases "k \<in> set (dict_keys d)") (simp_all add: dict_keys_def x)
qed

lemma dict_merge_keys: "\<exists>ks. dict_keys (dict_merge a b) = dict_keys a @ ks"
proof (induction b arbitrary: a)
  case Nil
  then show ?case by (simp add: dict_merge_def)
next
  case (Cons x b)
  obtain k v where x: "x = (k, v)" by (cases x)
  from Cons [of "dict_set a k v"] obtain ks
    where ks: "dict_keys (dict_merge (dict_set a k v) b) = dict_keys (dict_set a k v) @ ks"
    by blast
  have m: "dict_merge a (x # b) = dict_merge (dict_set a k v) b"
    by (simp add: dict_merge_def x)
  show ?case
  proof (cases "k \<in> set (dict_keys a)")
    case True
    with ks m show ?thesis by (simp add: dict_keys_set)
  next
    case False
    with ks m have "dict_keys (dict_merge a (x # b)) = dict_keys a @ (k # ks)"
      by (simp add: dict_keys_set)
    then show ?thesis by blast
  qed
qed

lemma parse_args_toolzv4:
  assumes "\<not> truthy (env ''FUNCTION_NAME'') \<or> env ''FUNCTION_NAME'' = Some ''toolzv4''"
  shows "parse_args env [''toolzv4'', ''target=1.2.3.4''] = Inr (''toolzv4'', [(''target'', ''1.2.3.4'')])"
proof (cases "truthy (env ''FUNCTION_NAME'')")
  case True
  with assms have "env ''FUNCTION_NAME'' = Some ''toolzv4''" by simp
  then show ?thesis
    by (simp add: parse_args_def registry_keys split_eq_def)
next
  case False
  then have "py_or (env ''FUNCTION_NAME'') ''toolzv4'' = ''toolzv4''"
    by (cases "env ''FUNCTION_NAME''") simp_all
  with False show ?thesis
    by (simp add: parse_args_def registry_keys split_eq_def)
qed

lemma toolzv4_final_params:
  "final_params_of
     \<lparr>description = ''IPv4 Network Connectivity Testing Tool'',
      default_params = [(''target'', ''8.8.8.8''), (''count'', ''4''), (''timeout'', ''5000'')]\<rparr>
     [(''target'', ''1.2.3.4'')]
   = [(''target'', ''1.2.3.4''), (''count'', ''4''), (''timeout'', ''5000'')]"
  by (simp add: final_params_of_def dict_merge_def)

lemma toolzv4_query:
  "urlencode [(''target'', ''1.2.3.4''), (''count'', ''4''), (''timeout'', ''5000'')]
   = ''target=1.2.3.4&count=4&timeout=5000''"
  by (simp add: urlencode_def quote_plus_def quote_char_def always_safe_def Let_def)

lemma toolzv4_endpoint_path:
  "endpoint_path_of ''toolzv4'' [(''target'', ''1.2.3.4''), (''count'', ''4''), (''timeout'', ''5000'')]
   = ''/functions/v1/toolzv4?target=1.2.3.4&count=4&timeout=5000''"
  by (simp add: endpoint_path_of_def toolzv4_query)

subsection \<open>The report, by its branches\<close>

lemma main_report_decoded:
  "content_decoded r = Inr body \<Longrightarrow>
   main_report w r =
     (Print (''2. Response Status: '' @ str_int (status_code r)) # report_details w r body
        @ main_verification (status_code r) @ fst (settlement w r main_no_settlement),
      snd (settlement w r main_no_settlement))"
  by (simp add: main_report_def Let_def split: prod.splits)

lemma tf_report_decoded:
  "content_decoded r = Inr body \<Longrightarrow>
   tf_report w r =
     (Print (''2. Response Status: '' @ str_int (status_code r)) # report_details w r body
        @ tf_verification (status_code r) @ fst (settlement w r tf_no_settlement),
      snd (settlement w r tf_no_settlement))"
  by (simp add: tf_report_def Let_def split: prod.splits)

lemma report_undecoded:
  "content_decoded r = Inl e \<Longrightarrow>
   main_report w r = ([Print (''2. Response Status: '' @ str_int (status_code r))], Some e)
   \<and> tf_report w r = ([Print (''2. Response Status: '' @ str_int (status_code r))], Some e)"
  by (simp add: main_report_def tf_report_def)


lemma settlement_dict:
  "headers_get r ''X-Payment-Response'' = Some h \<Longrightarrow> decode_x_payment_response w h = Inr (Dict m)
   \<Longrightarrow> settlement w r absent = (settlement_block m, None)"
  by (simp add: settlement_def)

lemma print_headers_eq:
  "print_headers items
     = map (\<lambda>(key, v). header_line key v) (filter (\<lambda>(key, v). header_shown key) items)"
  by (induction items rule: print_headers.induct) auto

lemma main_classification:
  "filter is_classification (main_verification s)
     = [if s = 200 then verified_line else if s = 402 then failed_line else unexpected_line s]"
  by (simp add: main_verification_def verified_line_def failed_line_def unexpected_line_def
      startswith_nil emoji_check_def emoji_warning_def)

lemma tf_classification:
  "filter is_classification (tf_verification s)
     = [if s = 200 then verified_line else if s = 402 then failed_line else unexpected_line s]"
  by (simp add: tf_verification_def verified_line_def failed_line_def unexpected_line_def
      startswith_nil emoji_check_def emoji_warning_def)

lemma classifications_distinct:
  "verified_line \<noteq> failed_line \<and> verified_line \<noteq> unexpected_line s
   \<and> failed_line \<noteq> unexpected_line s"
  by (simp add: verified_line_def failed_line_def unexpected_line_def emoji_check_def
      emoji_warning_def)

subsection \<open>The concrete inputs\<close>

lemma demo_world_simps:
  "client_get (demo_world answer) b h p = answer"
  "Account_from_key (demo_world answer) k = Inr ''0xA11CE''"
  "json_pretty (demo_world answer) s = None"
  "decode_x_payment_response (demo_world answer) hv = Inr (Dict demo_settlement)"
  by (simp_all add: demo_world_def)

lemma demo_response_simps:
  "status_code (demo_response s body) = s"
  "headers_items (demo_response s body) = demo_headers"
  "headers_get (demo_response s body) ''X-Payment-Response'' = Some ''eyJ9''"
  "content_decoded (demo_response s body) = body"
  by (simp_all add: demo_response_def)

lemma demo_env_simps:
  "demo_env ''PRIVATE_KEY'' = Some ''0x01''"
  "demo_env ''RESOURCE_SERVER_URL'' = Some ''https://example.com''"
  "demo_env ''ENDPOINT_PATH'' = Some ''/functions/v1/toolzv4''"
  "demo_env ''SUPABASE_ANON_KEY'' = None"
  "demo_env ''FUNCTION_NAME'' = None"
  by (simp_all add: demo_env_def)


lemma demo_settlement_run:
  "settlement (demo_world answer) (demo_response s body) absent
     = (settlement_block demo_settlement, None)"
  by (rule settlement_dict [where h = "''eyJ9''"]) (simp_all add: demo_response_simps demo_world_simps)

lemma demo_print_headers:
  "print_headers demo_headers
     = [Print ''   access-control-max-age: 600'', Print ''   x-payment-response: eyJ9'']"
  by (simp add: demo_headers_def header_shown_def header_line_def lower_def lower_char_def
      ascii_lowercase_def latin1_small_def)

lemma rule60_head: "rule60 = CHR ''='' # replicate 59 (CHR ''='')"
proof -
  have "(60::nat) = Suc 59" by simp
  then show ?thesis unfolding rule60_def by (simp only: replicate_Suc)
qed

lemma demo_parse: "parse_args demo_env [''toolzv4''] = Inr (''toolzv4'', [])"
  by (simp add: parse_args_def registry_keys demo_env_simps)

section \<open>The claims\<close>

text \<open>
  C1. For every list of payment requirement options and every network filter, scheme
  filter and max value the caller supplies, the selector of either script returns what
  the library's default selector returns for the network filter \<open>"base"\<close> and the same
  scheme filter and max value; the result does not depend on the caller's network
  filter.
\<close>

theorem selector_fixed_network:
  "main_custom_payment_selector default_selector accepts network_filter scheme_filter max_value
     = default_selector accepts (Some ''base'') scheme_filter max_value
   \<and> tf_custom_payment_selector default_selector accepts network_filter scheme_filter max_value
     = default_selector accepts (Some ''base'') scheme_filter max_value
   \<and> main_custom_payment_selector default_selector accepts network_filter scheme_filter max_value
     = main_custom_payment_selector default_selector accepts network_filter' scheme_filter max_value
   \<and> tf_custom_payment_selector default_selector accepts network_filter scheme_filter max_value
     = tf_custom_payment_selector default_selector accepts network_filter' scheme_filter max_value"
  by (simp add: main_custom_payment_selector_def tf_custom_payment_selector_def)

text \<open>
  C2, as stated, fails for the second script: with the signing key absent and a
  registered function on the command line it prints the error and ends with status 0.
\<close>

theorem missing_key_counterexample:
  "\<not> truthy (Map.empty ''PRIVATE_KEY'')
   \<and> test_function_script (demo_world (Inl connect_error)) Map.empty [''toolzv4'']
       = \<lparr>events = [Print (emoji_cross @ '' Error: PRIVATE_KEY environment variable is required''),
                    Print ''Set it in .env file or environment''],
          exit_status = 0\<rparr>"
proof -
  have p: "parse_args Map.empty [''toolzv4''] = Inr (''toolzv4'', [])"
    by (simp add: parse_args_def registry_keys)
  show ?thesis
    by (simp add: test_function_script_def p test_function_no_key [OF toolzv4_config])
qed

text \<open>
  C2, amended. First script: when any of the signing key, the base URL and the endpoint
  path is absent (or empty), the run is the one error line and exit status 1, before
  any network I/O. Second script: when the signing key is absent (or empty), the run
  makes no network call; its exit status is 1 only when argument parsing exits, and 0
  otherwise; for a registered function it prints the error for the missing key and
  ends with status 0.
\<close>

theorem missing_configuration:
  "(\<not> truthy (env ''PRIVATE_KEY'') \<or> \<not> truthy (env ''RESOURCE_SERVER_URL'')
      \<or> \<not> truthy (env ''ENDPOINT_PATH'')
     \<longrightarrow> main_script w env
          = \<lparr>events = [Print ''Error: Missing required environment variables''], exit_status = 1\<rparr>
       \<and> network_calls (main_script w env) = [])
   \<and> (\<not> truthy (env' ''PRIVATE_KEY'')
     \<longrightarrow> network_calls (test_function_script w' env' argv) = []
       \<and> exit_status (test_function_script w' env' argv)
           = (if isl (parse_args env' argv) then 1 else 0))
   \<and> (\<not> truthy (env' ''PRIVATE_KEY'') \<and> parse_args env' argv = Inr (fn, params)
        \<and> fn \<in> set (dict_keys FUNCTION_CONFIGS)
     \<longrightarrow> test_function_script w' env' argv
          = \<lparr>events = [Print (emoji_cross @ '' Error: PRIVATE_KEY environment variable is required''),
                       Print ''Set it in .env file or environment''],
             exit_status = 0\<rparr>)"
proof (intro conjI impI)
  assume "\<not> truthy (env ''PRIVATE_KEY'') \<or> \<not> truthy (env ''RESOURCE_SERVER_URL'')
      \<or> \<not> truthy (env ''ENDPOINT_PATH'')"
  then show m: "main_script w env
      = \<lparr>events = [Print ''Error: Missing required environment variables''], exit_status = 1\<rparr>"
    by (auto simp: main_script_def Let_def)
  show "network_calls (main_script w env) = []"
    by (simp add: m network_calls_def)
next
  assume k: "\<not> truthy (env' ''PRIVATE_KEY'')"
  show "network_calls (test_function_script w' env' argv) = []"
  proof (cases "parse_args env' argv")
    case (Inl r)
    then show ?thesis
      using parse_args_exit [OF Inl] by (simp add: test_function_script_def network_calls_def)
  next
    case (Inr a)
    obtain fn params where a: "a = (fn, params)" by (cases a)
    obtain out raised where t: "test_function w' env' fn params = (out, raised)"
      by (cases "test_function w' env' fn params")
    with k test_function_no_key_any [where env = env' and w = w' and fn = fn and params = params]
    have "raised = None" "filter is_Get out = []" by simp_all
    then show ?thesis
      by (simp add: test_function_script_def network_calls_def Inr a t)
  qed
  show "exit_status (test_function_script w' env' argv)
           = (if isl (parse_args env' argv) then 1 else 0)"
  proof (cases "parse_args env' argv")
    case (Inl r)
    then show ?thesis
      using parse_args_exit [OF Inl] by (simp add: test_function_script_def)
  next
    case (Inr a)
    obtain fn params where a: "a = (fn, params)" by (cases a)
    obtain out raised where t: "test_function w' env' fn params = (out, raised)"
      by (cases "test_function w' env' fn params")
    with k test_function_no_key_any [where env = env' and w = w' and fn = fn and params = params]
    have "raised = None" by simp
    then show ?thesis
      by (simp add: test_function_script_def Inr a t)
  qed
next
  assume h: "\<not> truthy (env' ''PRIVATE_KEY'') \<and> parse_args env' argv = Inr (fn, params)
        \<and> fn \<in> set (dict_keys FUNCTION_CONFIGS)"
  then obtain config where c: "map_of FUNCTION_CONFIGS fn = Some config"
    by (auto simp: dict_keys_def FUNCTION_CONFIGS_def)
  from h show "test_function_script w' env' argv
          = \<lparr>events = [Print (emoji_cross @ '' Error: PRIVATE_KEY environment variable is required''),
                       Print ''Set it in .env file or environment''],
             exit_status = 0\<rparr>"
    by (simp add: test_function_script_def test_function_no_key [OF c])
qed

theorem missing_configuration_witness:
  "\<not> truthy (Map.empty ''PRIVATE_KEY'')
   \<and> parse_args Map.empty [''toolzv4''] = Inr (''toolzv4'', [])
   \<and> ''toolzv4'' \<in> set (dict_keys FUNCTION_CONFIGS)
   \<and> main_script (demo_world (Inl connect_error)) Map.empty
       = \<lparr>events = [Print ''Error: Missing required environment variables''], exit_status = 1\<rparr>
   \<and> network_calls (main_script (demo_world (Inl connect_error)) Map.empty) = []
   \<and> network_calls (test_function_script (demo_world (Inl connect_error)) Map.empty [''toolzv4'']) = []
   \<and> exit_status (test_function_script (demo_world (Inl connect_error)) Map.empty [''toolzv4'']) = 0
   \<and> test_function_script (demo_world (Inl connect_error)) Map.empty [''toolzv4'']
       = \<lparr>events = [Print (emoji_cross @ '' Error: PRIVATE_KEY environment variable is required''),
                    Print ''Set it in .env file or environment''],
          exit_status = 0\<rparr>"
proof -
  have k: "\<not> truthy (Map.empty ''PRIVATE_KEY'')" by simp
  have p: "parse_args Map.empty [''toolzv4''] = Inr (''toolzv4'', [])"
    by (simp add: parse_args_def registry_keys)
  have r: "''toolzv4'' \<in> set (dict_keys FUNCTION_CONFIGS)" by (simp add: registry_keys)
  show ?thesis
    using missing_configuration [of Map.empty "demo_world (Inl connect_error)" Map.empty
        "demo_world (Inl connect_error)" "[''toolzv4'']" "''toolzv4''" "[]"] k p r
    by (simp add: network_calls_def)
qed




text \<open>
  C4, as stated, fails on a header whose name holds \<open>x-\<close> in the middle: the test is
  \<open>'x-' in key.lower()\<close>, so \<open>access-control-max-age\<close> is echoed although its name neither
  contains \<open>payment\<close> nor starts with \<open>x-\<close>. (And for a response whose body is not text
  no header is echoed: the report stops after the status line.)
\<close>

theorem echoed_header_counterexample:
  "\<not> py_in ''payment'' (lower ''access-control-max-age'')
   \<and> \<not> startswith (lower ''access-control-max-age'') ''x-''
   \<and> header_shown ''access-control-max-age''
   \<and> headers_items (demo_response 200 (Inr ''ok''))
       = [(''content-type'', ''text/plain''), (''access-control-max-age'', ''600''),
          (''x-payment-response'', ''eyJ9'')]
   \<and> take 4 (fst (main_report (demo_world (Inr (demo_response 200 (Inr ''ok''))))
                  (demo_response 200 (Inr ''ok''))))
       = [Print ''2. Response Status: 200'',
          Print (CHR 0x0A # emoji_clipboard @ '' Response Headers:''),
          Print ''   access-control-max-age: 600'',
          Print ''   x-payment-response: eyJ9'']
   \<and> take 4 (fst (tf_report (demo_world (Inr (demo_response 200 (Inr ''ok''))))
                  (demo_response 200 (Inr ''ok''))))
       = [Print ''2. Response Status: 200'',
          Print (CHR 0x0A # emoji_clipboard @ '' Response Headers:''),
          Print ''   access-control-max-age: 600'',
          Print ''   x-payment-response: eyJ9'']
   \<and> fst (main_report (demo_world (Inr (demo_response 200 (Inl decode_error))))
            (demo_response 200 (Inl decode_error)))
       = [Print ''2. Response Status: 200'']"
proof -
  let ?r = "demo_response 200 (Inr ''ok'')"
  let ?w = "demo_world (Inr ?r)"
  have l: "lower ''access-control-max-age'' = ''access-control-max-age''"
    by (simp add: lower_def lower_char_def ascii_lowercase_def latin1_small_def)
  have a: "\<not> py_in ''payment'' (lower ''access-control-max-age'')
      \<and> \<not> startswith (lower ''access-control-max-age'') ''x-''
      \<and> header_shown ''access-control-max-age''"
    by (simp add: l header_shown_def)
  have d: "report_details ?w ?r ''ok''
      = [Print (CHR 0x0A # emoji_clipboard @ '' Response Headers:''),
         Print ''   access-control-max-age: 600'',
         Print ''   x-payment-response: eyJ9'',
         Print (CHR 0x0A # emoji_package @ '' Response Body:''),
         Print ''ok'',
         Print (CHR 0x0A # rule60), Print ''X-PAYMENT Header Verification:'', Print rule60]"
    by (simp add: report_details_def demo_response_simps demo_print_headers print_body_def
        demo_world_simps)
  have m: "take 4 (fst (main_report ?w ?r))
      = [Print ''2. Response Status: 200'',
         Print (CHR 0x0A # emoji_clipboard @ '' Response Headers:''),
         Print ''   access-control-max-age: 600'',
         Print ''   x-payment-response: eyJ9'']"
    using main_report_decoded [of ?r "''ok''" ?w]
    by (simp add: demo_response_simps d str_int_200)
  have t: "take 4 (fst (tf_report ?w ?r))
      = [Print ''2. Response Status: 200'',
         Print (CHR 0x0A # emoji_clipboard @ '' Response Headers:''),
         Print ''   access-control-max-age: 600'',
         Print ''   x-payment-response: eyJ9'']"
    using tf_report_decoded [of ?r "''ok''" ?w]
    by (simp add: demo_response_simps d str_int_200)
  have u: "fst (main_report (demo_world (Inr (demo_response 200 (Inl decode_error))))
            (demo_response 200 (Inl decode_error)))
       = [Print ''2. Response Status: 200'']"
    using report_undecoded [of "demo_response 200 (Inl decode_error)" decode_error]
    by (simp add: demo_response_simps str_int_200)
  have i: "headers_items ?r
       = [(''content-type'', ''text/plain''), (''access-control-max-age'', ''600''),
          (''x-payment-response'', ''eyJ9'')]"
    by (simp add: demo_response_simps demo_headers_def)
  from a i m t u show ?thesis by blast
qed

text \<open>
  C4, amended. For every response whose body is read as text, the report of either
  script holds, right after the status line, the details of the response, and these
  echo, in the order of the response, exactly the headers whose lowercased name
  contains \<open>payment\<close> or contains \<open>x-\<close> (anywhere in the name); a value longer than 100
  characters is shown as its first 100 characters followed by three dots, any other
  value in full; all other headers are left out.
\<close>

theorem echoed_headers:
  "(content_decoded r = Inr body
     \<longrightarrow> fst (main_report w r)
           = Print (''2. Response Status: '' @ str_int (status_code r)) # report_details w r body
               @ main_verification (status_code r) @ fst (settlement w r main_no_settlement)
       \<and> fst (tf_report w r)
           = Print (''2. Response Status: '' @ str_int (status_code r)) # report_details w r body
               @ tf_verification (status_code r) @ fst (settlement w r tf_no_settlement))
   \<and> report_details w r body
       = [Print (CHR 0x0A # emoji_clipboard @ '' Response Headers:'')]
         @ map (\<lambda>(key, v). header_line key v)
             (filter (\<lambda>(key, v). header_shown key) (headers_items r))
         @ [Print (CHR 0x0A # emoji_package @ '' Response Body:'')]
         @ print_body w body
         @ [Print (CHR 0x0A # rule60), Print ''X-PAYMENT Header Verification:'', Print rule60]
   \<and> header_shown key
       = ((\<exists>p q. lower key = p @ ''payment'' @ q) \<or> (\<exists>p q. lower key = p @ ''x-'' @ q))
   \<and> header_line key v
       = Print (''   '' @ key @ '': '' @ (if length v > 100 then take 100 v @ ''...'' else v))"
proof (intro conjI impI)
  assume d: "content_decoded r = Inr body"
  show "fst (main_report w r)
           = Print (''2. Response Status: '' @ str_int (status_code r)) # report_details w r body
               @ main_verification (status_code r) @ fst (settlement w r main_no_settlement)"
    by (simp add: main_report_decoded [OF d])
  show "fst (tf_report w r)
           = Print (''2. Response Status: '' @ str_int (status_code r)) # report_details w r body
               @ tf_verification (status_code r) @ fst (settlement w r tf_no_settlement)"
    by (simp add: tf_report_decoded [OF d])
next
  show "report_details w r body
       = [Print (CHR 0x0A # emoji_clipboard @ '' Response Headers:'')]
         @ map (\<lambda>(key, v). header_line key v)
             (filter (\<lambda>(key, v). header_shown key) (headers_items r))
         @ [Print (CHR 0x0A # emoji_package @ '' Response Body:'')]
         @ print_body w body
         @ [Print (CHR 0x0A # rule60), Print ''X-PAYMENT Header Verification:'', Print rule60]"
    by (simp add: report_details_def print_headers_eq)
next
  show "header_shown key
       = ((\<exists>p q. lower key = p @ ''payment'' @ q) \<or> (\<exists>p q. lower key = p @ ''x-'' @ q))"
    unfolding header_shown_def py_in_iff by (rule refl)
next
  show "header_line key v
       = Print (''   '' @ key @ '': '' @ (if length v > 100 then take 100 v @ ''...'' else v))"
    by (simp add: header_line_def)
qed

theorem echoed_headers_witness:
  "content_decoded (demo_response 200 (Inr ''ok'')) = Inr ''ok''
   \<and> fst (main_report (demo_world (Inl connect_error)) (demo_response 200 (Inr ''ok'')))
       = Print ''2. Response Status: 200''
           # report_details (demo_world (Inl connect_error)) (demo_response 200 (Inr ''ok'')) ''ok''
           @ main_verification 200
           @ fst (settlement (demo_world (Inl connect_error)) (demo_response 200 (Inr ''ok''))
                    main_no_settlement)
   \<and> report_details (demo_world (Inl connect_error)) (demo_response 200 (Inr ''ok'')) ''ok''
       = [Print (CHR 0x0A # emoji_clipboard @ '' Response Headers:''),
          Print ''   access-control-max-age: 600'',
          Print ''   x-payment-response: eyJ9'',
          Print (CHR 0x0A # emoji_package @ '' Response Body:''),
          Print ''ok'',
          Print (CHR 0x0A # rule60), Print ''X-PAYMENT Header Verification:'', Print rule60]"
proof -
  have a: "content_decoded (demo_response 200 (Inr ''ok'')) = Inr ''ok''"
    by (simp add: demo_response_simps)
  have f: "map (\<lambda>(key, v). header_line key v)
             (filter (\<lambda>(key, v). header_shown key) demo_headers)
      = [Print ''   access-control-max-age: 600'', Print ''   x-payment-response: eyJ9'']"
    using demo_print_headers by (simp add: print_headers_eq)
  show ?thesis
    using echoed_headers [of "demo_response 200 (Inr ''ok'')" "''ok''"
        "demo_world (Inl connect_error)"] a
    by (simp add: demo_response_simps str_int_200 f print_body_def demo_world_simps)
qed

text \<open>
  C5. Invoked as \<open>toolzv4 target=1.2.3.4\<close> (no override of the function name in the
  environment, or the override \<open>toolzv4\<close> itself), the second script parses the function
  \<open>toolzv4\<close> with the parameter \<open>target\<close>, merges it over the defaults to
  \<open>{target: "1.2.3.4", count: "4", timeout: "5000"}\<close> and builds the path
  \<open>/functions/v1/toolzv4?target=1.2.3.4&count=4&timeout=5000\<close>; with a signing key and an
  account, that path is announced and is the one request of the run. The keys of
  merged parameters always start with the default keys in the registry's order.
\<close>

theorem toolzv4_target_example:
  "(\<not> truthy (env ''FUNCTION_NAME'') \<or> env ''FUNCTION_NAME'' = Some ''toolzv4''
     \<longrightarrow> parse_args env [''toolzv4'', ''target=1.2.3.4'']
           = Inr (''toolzv4'', [(''target'', ''1.2.3.4'')]))
   \<and> map_of FUNCTION_CONFIGS ''toolzv4''
       = Some \<lparr>description = ''IPv4 Network Connectivity Testing Tool'',
               default_params = [(''target'', ''8.8.8.8''), (''count'', ''4''), (''timeout'', ''5000'')]\<rparr>
   \<and> final_params_of
         \<lparr>description = ''IPv4 Network Connectivity Testing Tool'',
          default_params = [(''target'', ''8.8.8.8''), (''count'', ''4''), (''timeout'', ''5000'')]\<rparr>
         [(''target'', ''1.2.3.4'')]
       = [(''target'', ''1.2.3.4''), (''count'', ''4''), (''timeout'', ''5000'')]
   \<and> endpoint_path_of ''toolzv4'' [(''target'', ''1.2.3.4''), (''count'', ''4''), (''timeout'', ''5000'')]
       = ''/functions/v1/toolzv4?target=1.2.3.4&count=4&timeout=5000''
   \<and> ((\<not> truthy (env ''FUNCTION_NAME'') \<or> env ''FUNCTION_NAME'' = Some ''toolzv4'')
        \<and> env ''PRIVATE_KEY'' = Some pk \<and> pk \<noteq> [] \<and> Account_from_key w pk = Inr address
     \<longrightarrow> events (test_function_script w env [''toolzv4'', ''target=1.2.3.4''])
           = tf_announce ''toolzv4''
               \<lparr>description = ''IPv4 Network Connectivity Testing Tool'',
                default_params = [(''target'', ''8.8.8.8''), (''count'', ''4''), (''timeout'', ''5000'')]\<rparr>
               ''/functions/v1/toolzv4?target=1.2.3.4&count=4&timeout=5000''
               (py_or (env ''RESOURCE_SERVER_URL'') ''https://xluihnzwcmxybtygewvy.supabase.co'')
               address
               [(''target'', ''1.2.3.4''), (''count'', ''4''), (''timeout'', ''5000'')]
             @ handle_exception
                 (tf_try w (py_or (env ''RESOURCE_SERVER_URL'') ''https://xluihnzwcmxybtygewvy.supabase.co'')
                    (build_headers (env ''SUPABASE_ANON_KEY''))
                    ''/functions/v1/toolzv4?target=1.2.3.4&count=4&timeout=5000'')
       \<and> network_calls (test_function_script w env [''toolzv4'', ''target=1.2.3.4''])
           = [Get (py_or (env ''RESOURCE_SERVER_URL'') ''https://xluihnzwcmxybtygewvy.supabase.co'')
                (build_headers (env ''SUPABASE_ANON_KEY''))
                ''/functions/v1/toolzv4?target=1.2.3.4&count=4&timeout=5000''])
   \<and> (\<exists>ks. dict_keys (final_params_of config params) = dict_keys (default_params config) @ ks)"
proof (intro conjI impI)
  assume "\<not> truthy (env ''FUNCTION_NAME'') \<or> env ''FUNCTION_NAME'' = Some ''toolzv4''"
  then show "parse_args env [''toolzv4'', ''target=1.2.3.4'']
      = Inr (''toolzv4'', [(''target'', ''1.2.3.4'')])"
    by (rule parse_args_toolzv4)
next
  show "map_of FUNCTION_CONFIGS ''toolzv4''
       = Some \<lparr>description = ''IPv4 Network Connectivity Testing Tool'',
               default_params = [(''target'', ''8.8.8.8''), (''count'', ''4''), (''timeout'', ''5000'')]\<rparr>"
    by (rule toolzv4_config)
next
  show "final_params_of
         \<lparr>description = ''IPv4 Network Connectivity Testing Tool'',
          default_params = [(''target'', ''8.8.8.8''), (''count'', ''4''), (''timeout'', ''5000'')]\<rparr>
         [(''target'', ''1.2.3.4'')]
       = [(''target'', ''1.2.3.4''), (''count'', ''4''), (''timeout'', ''5000'')]"
    by (rule toolzv4_final_params)
next
  show "endpoint_path_of ''toolzv4'' [(''target'', ''1.2.3.4''), (''count'', ''4''), (''timeout'', ''5000'')]
       = ''/functions/v1/toolzv4?target=1.2.3.4&count=4&timeout=5000''"
    by (rule toolzv4_endpoint_path)
next
  assume h: "(\<not> truthy (env ''FUNCTION_NAME'') \<or> env ''FUNCTION_NAME'' = Some ''toolzv4'')
        \<and> env ''PRIVATE_KEY'' = Some pk \<and> pk \<noteq> [] \<and> Account_from_key w pk = Inr address"
  then have p: "parse_args env [''toolzv4'', ''target=1.2.3.4'']
      = Inr (''toolzv4'', [(''target'', ''1.2.3.4'')])"
    by (simp add: parse_args_toolzv4)
  from h have k: "env ''PRIVATE_KEY'' = Some pk" "pk \<noteq> []" "Account_from_key w pk = Inr address"
    by simp_all
  show e: "events (test_function_script w env [''toolzv4'', ''target=1.2.3.4''])
           = tf_announce ''toolzv4''
               \<lparr>description = ''IPv4 Network Connectivity Testing Tool'',
                default_params = [(''target'', ''8.8.8.8''), (''count'', ''4''), (''timeout'', ''5000'')]\<rparr>
               ''/functions/v1/toolzv4?target=1.2.3.4&count=4&timeout=5000''
               (py_or (env ''RESOURCE_SERVER_URL'') ''https://xluihnzwcmxybtygewvy.supabase.co'')
               address
               [(''target'', ''1.2.3.4''), (''count'', ''4''), (''timeout'', ''5000'')]
             @ handle_exception
                 (tf_try w (py_or (env ''RESOURCE_SERVER_URL'') ''https://xluihnzwcmxybtygewvy.supabase.co'')
                    (build_headers (env ''SUPABASE_ANON_KEY''))
                    ''/functions/v1/toolzv4?target=1.2.3.4&count=4&timeout=5000'')"
    using test_function_run [where env = env and w = w and params = "[(''target'', ''1.2.3.4'')]",
        OF toolzv4_config k]
    by (simp add: test_function_script_def p toolzv4_final_params toolzv4_endpoint_path)
  show "network_calls (test_function_script w env [''toolzv4'', ''target=1.2.3.4''])
           = [Get (py_or (env ''RESOURCE_SERVER_URL'') ''https://xluihnzwcmxybtygewvy.supabase.co'')
                (build_headers (env ''SUPABASE_ANON_KEY''))
                ''/functions/v1/toolzv4?target=1.2.3.4&count=4&timeout=5000'']"
    by (simp add: network_calls_def e tf_announce_no_get tf_try_get)
next
  show "\<exists>ks. dict_keys (final_params_of config params) = dict_keys (default_params config) @ ks"
    by (simp add: final_params_of_def dict_merge_keys)
qed

theorem toolzv4_target_example_witness:
  "\<not> truthy ([''PRIVATE_KEY'' \<mapsto> ''0x01''] ''FUNCTION_NAME'')
   \<and> [''PRIVATE_KEY'' \<mapsto> ''0x01''] ''PRIVATE_KEY'' = Some ''0x01''
   \<and> Account_from_key (demo_world (Inl connect_error)) ''0x01'' = Inr ''0xA11CE''
   \<and> parse_args [''PRIVATE_KEY'' \<mapsto> ''0x01''] [''toolzv4'', ''target=1.2.3.4'']
       = Inr (''toolzv4'', [(''target'', ''1.2.3.4'')])
   \<and> network_calls (test_function_script (demo_world (Inl connect_error)) [''PRIVATE_KEY'' \<mapsto> ''0x01'']
        [''toolzv4'', ''target=1.2.3.4''])
       = [Get ''https://xluihnzwcmxybtygewvy.supabase.co'' []
            ''/functions/v1/toolzv4?target=1.2.3.4&count=4&timeout=5000'']"
proof -
  have a: "\<not> truthy ([''PRIVATE_KEY'' \<mapsto> ''0x01''] ''FUNCTION_NAME'')" by simp
  have b: "[''PRIVATE_KEY'' \<mapsto> ''0x01''] ''PRIVATE_KEY'' = Some ''0x01''" by simp
  have c: "Account_from_key (demo_world (Inl connect_error)) ''0x01'' = Inr ''0xA11CE''"
    by (simp add: demo_world_def)
  have d: "[''PRIVATE_KEY'' \<mapsto> ''0x01''] ''RESOURCE_SERVER_URL'' = None"
    "[''PRIVATE_KEY'' \<mapsto> ''0x01''] ''SUPABASE_ANON_KEY'' = None" by simp_all
  show ?thesis
    using toolzv4_target_example [of "[''PRIVATE_KEY'' \<mapsto> ''0x01'']" "''0x01''"
        "demo_world (Inl connect_error)" "''0xA11CE''"] a b c
    by (simp add: d build_headers_def)
qed

text \<open>
  C6. Every exception raised during the request and response cycle is caught by the
  handler around it: when the request itself raises, or when the handling of the
  response raises after printing some lines, the run of either script continues with
  the line \<open>Error occurred\<close> carrying the message of the exception and with its
  traceback, and ends with exit status 0. (The cycle is the body of the \<open>try\<close> block;
  the exceptions are the instances of \<open>Exception\<close>.)
\<close>

theorem exceptions_caught_at_top_level:
  assumes "env ''PRIVATE_KEY'' = Some pk" and "pk \<noteq> []"
  shows
  "(env ''RESOURCE_SERVER_URL'' = Some url \<and> url \<noteq> [] \<and> env ''ENDPOINT_PATH'' = Some ep \<and> ep \<noteq> []
      \<and> Account_from_key w1 pk = Inr a1
      \<and> client_get w1 url (build_headers (env ''SUPABASE_ANON_KEY'')) ep = Inl e1
     \<longrightarrow> main_script w1 env
           = \<lparr>events =
                (if truthy (env ''SUPABASE_ANON_KEY'')
                 then [Print ''Using Authorization header with Supabase anon key''] else [])
                @ [Print (''Initialized account: '' @ a1)]
                @ main_announce ep url a1
                @ [Get url (build_headers (env ''SUPABASE_ANON_KEY'')) ep,
                   Print (CHR 0x0A # emoji_cross @ '' Error occurred: '' @ exn_str e1),
                   Traceback e1],
              exit_status = 0\<rparr>)
   \<and> (env ''RESOURCE_SERVER_URL'' = Some url \<and> url \<noteq> [] \<and> env ''ENDPOINT_PATH'' = Some ep \<and> ep \<noteq> []
      \<and> Account_from_key w2 pk = Inr a2
      \<and> client_get w2 url (build_headers (env ''SUPABASE_ANON_KEY'')) ep = Inr r2
      \<and> main_report w2 r2 = (out2, Some e2)
     \<longrightarrow> main_script w2 env
           = \<lparr>events =
                (if truthy (env ''SUPABASE_ANON_KEY'')
                 then [Print ''Using Authorization header with Supabase anon key''] else [])
                @ [Print (''Initialized account: '' @ a2)]
                @ main_announce ep url a2
                @ [Get url (build_headers (env ''SUPABASE_ANON_KEY'')) ep]
                @ out2
                @ [Print (CHR 0x0A # emoji_cross @ '' Error occurred: '' @ exn_str e2),
                   Traceback e2],
              exit_status = 0\<rparr>)
   \<and> (parse_args env argv = Inr (fn, params) \<and> map_of FUNCTION_CONFIGS fn = Some config
      \<and> Account_from_key w3 pk = Inr a3
      \<and> client_get w3 (py_or (env ''RESOURCE_SERVER_URL'') ''https://xluihnzwcmxybtygewvy.supabase.co'')
           (build_headers (env ''SUPABASE_ANON_KEY''))
           (endpoint_path_of fn (final_params_of config params)) = Inl e3
     \<longrightarrow> test_function_script w3 env argv
           = \<lparr>events =
                tf_announce fn config (endpoint_path_of fn (final_params_of config params))
                  (py_or (env ''RESOURCE_SERVER_URL'') ''https://xluihnzwcmxybtygewvy.supabase.co'')
                  a3 (final_params_of config params)
                @ [Get (py_or (env ''RESOURCE_SERVER_URL'') ''https://xluihnzwcmxybtygewvy.supabase.co'')
                     (build_headers (env ''SUPABASE_ANON_KEY''))
                     (endpoint_path_of fn (final_params_of config params)),
                   Print (CHR 0x0A # emoji_cross @ '' Error occurred: '' @ exn_str e3),
                   Traceback e3],
              exit_status = 0\<rparr>)
   \<and> (parse_args env argv = Inr (fn, params) \<and> map_of FUNCTION_CONFIGS fn = Some config
      \<and> Account_from_key w4 pk = Inr a4
      \<and> client_get w4 (py_or (env ''RESOURCE_SERVER_URL'') ''https://xluihnzwcmxybtygewvy.supabase.co'')
           (build_headers (env ''SUPABASE_ANON_KEY''))
           (endpoint_path_of fn (final_params_of config params)) = Inr r4
      \<and> tf_report w4 r4 = (out4, Some e4)
     \<longrightarrow> test_function_script w4 env argv
           = \<lparr>events =
                tf_announce fn config (endpoint_path_of fn (final_params_of config params))
                  (py_or (env ''RESOURCE_SERVER_URL'') ''https://xluihnzwcmxybtygewvy.supabase.co'')
                  a4 (final_params_of config params)
                @ [Get (py_or (env ''RESOURCE_SERVER_URL'') ''https://xluihnzwcmxybtygewvy.supabase.co'')
                     (build_headers (env ''SUPABASE_ANON_KEY''))
                     (endpoint_path_of fn (final_params_of config params))]
                @ out4
                @ [Print (CHR 0x0A # emoji_cross @ '' Error occurred: '' @ exn_str e4),
                   Traceback e4],
              exit_status = 0\<rparr>)"
proof (intro conjI impI)
  assume h: "env ''RESOURCE_SERVER_URL'' = Some url \<and> url \<noteq> [] \<and> env ''ENDPOINT_PATH'' = Some ep
      \<and> ep \<noteq> [] \<and> Account_from_key w1 pk = Inr a1
      \<and> client_get w1 url (build_headers (env ''SUPABASE_ANON_KEY'')) ep = Inl e1"
  then have c: "env ''RESOURCE_SERVER_URL'' = Some url" "url \<noteq> []" "env ''ENDPOINT_PATH'' = Some ep"
    "ep \<noteq> []" "Account_from_key w1 pk = Inr a1" by simp_all
  from h have t: "main_try w1 url (build_headers (env ''SUPABASE_ANON_KEY'')) ep a1
      = (main_announce ep url a1 @ [Get url (build_headers (env ''SUPABASE_ANON_KEY'')) ep], Some e1)"
    by (simp add: main_try_def)
  show "main_script w1 env
           = \<lparr>events =
                (if truthy (env ''SUPABASE_ANON_KEY'')
                 then [Print ''Using Authorization header with Supabase anon key''] else [])
                @ [Print (''Initialized account: '' @ a1)]
                @ main_announce ep url a1
                @ [Get url (build_headers (env ''SUPABASE_ANON_KEY'')) ep,
                   Print (CHR 0x0A # emoji_cross @ '' Error occurred: '' @ exn_str e1),
                   Traceback e1],
              exit_status = 0\<rparr>"
    using main_script_run [where env = env and w = w1, OF assms c]
    by (simp add: t handle_exception_def)
next
  assume h: "env ''RESOURCE_SERVER_URL'' = Some url \<and> url \<noteq> [] \<and> env ''ENDPOINT_PATH'' = Some ep
      \<and> ep \<noteq> [] \<and> Account_from_key w2 pk = Inr a2
      \<and> client_get w2 url (build_headers (env ''SUPABASE_ANON_KEY'')) ep = Inr r2
      \<and> main_report w2 r2 = (out2, Some e2)"
  then have c: "env ''RESOURCE_SERVER_URL'' = Some url" "url \<noteq> []" "env ''ENDPOINT_PATH'' = Some ep"
    "ep \<noteq> []" "Account_from_key w2 pk = Inr a2" by simp_all
  from h have t: "main_try w2 url (build_headers (env ''SUPABASE_ANON_KEY'')) ep a2
      = (main_announce ep url a2 @ [Get url (build_headers (env ''SUPABASE_ANON_KEY'')) ep] @ out2,
         Some e2)"
    by (simp add: main_try_def)
  show "main_script w2 env
           = \<lparr>events =
                (if truthy (env ''SUPABASE_ANON_KEY'')
                 then [Print ''Using Authorization header with Supabase anon key''] else [])
                @ [Print (''Initialized account: '' @ a2)]
                @ main_announce ep url a2
                @ [Get url (build_headers (env ''SUPABASE_ANON_KEY'')) ep]
                @ out2
                @ [Print (CHR 0x0A # emoji_cross @ '' Error occurred: '' @ exn_str e2),
                   Traceback e2],
              exit_status = 0\<rparr>"
    using main_script_run [where env = env and w = w2, OF assms c]
    by (simp add: t handle_exception_def)
next
  assume h: "parse_args env argv = Inr (fn, params) \<and> map_of FUNCTION_CONFIGS fn = Some config
      \<and> Account_from_key w3 pk = Inr a3
      \<and> client_get w3 (py_or (env ''RESOURCE_SERVER_URL'') ''https://xluihnzwcmxybtygewvy.supabase.co'')
           (build_headers (env ''SUPABASE_ANON_KEY''))
           (endpoint_path_of fn (final_params_of config params)) = Inl e3"
  then have c: "map_of FUNCTION_CONFIGS fn = Some config" and a: "Account_from_key w3 pk = Inr a3"
    and p: "parse_args env argv = Inr (fn, params)" by simp_all
  from h have t: "tf_try w3 (py_or (env ''RESOURCE_SERVER_URL'') ''https://xluihnzwcmxybtygewvy.supabase.co'')
           (build_headers (env ''SUPABASE_ANON_KEY''))
           (endpoint_path_of fn (final_params_of config params))
      = ([Get (py_or (env ''RESOURCE_SERVER_URL'') ''https://xluihnzwcmxybtygewvy.supabase.co'')
            (build_headers (env ''SUPABASE_ANON_KEY''))
            (endpoint_path_of fn (final_params_of config params))], Some e3)"
    by (simp add: tf_try_def)
  show "test_function_script w3 env argv
           = \<lparr>events =
                tf_announce fn config (endpoint_path_of fn (final_params_of config params))
                  (py_or (env ''RESOURCE_SERVER_URL'') ''https://xluihnzwcmxybtygewvy.supabase.co'')
                  a3 (final_params_of config params)
                @ [Get (py_or (env ''RESOURCE_SERVER_URL'') ''https://xluihnzwcmxybtygewvy.supabase.co'')
                     (build_headers (env ''SUPABASE_ANON_KEY''))
                     (endpoint_path_of fn (final_params_of config params)),
                   Print (CHR 0x0A # emoji_cross @ '' Error occurred: '' @ exn_str e3),
                   Traceback e3],
              exit_status = 0\<rparr>"
    using test_function_run [where env = env and w = w3 and params = params, OF c assms a]
    by (simp add: test_function_script_def p t handle_exception_def)
next
  assume h: "parse_args env argv = Inr (fn, params) \<and> map_of FUNCTION_CONFIGS fn = Some config
      \<and> Account_from_key w4 pk = Inr a4
      \<and> client_get w4 (py_or (env ''RESOURCE_SERVER_URL'') ''https://xluihnzwcmxybtygewvy.supabase.co'')
           (build_headers (env ''SUPABASE_ANON_KEY''))
           (endpoint_path_of fn (final_params_of config params)) = Inr r4
      \<and> tf_report w4 r4 = (out4, Some e4)"
  then have c: "map_of FUNCTION_CONFIGS fn = Some config" and a: "Account_from_key w4 pk = Inr a4"
    and p: "parse_args env argv = Inr (fn, params)" by simp_all
  from h have t: "tf_try w4 (py_or (env ''RESOURCE_SERVER_URL'') ''https://xluihnzwcmxybtygewvy.supabase.co'')
           (build_headers (env ''SUPABASE_ANON_KEY''))
           (endpoint_path_of fn (final_params_of config params))
      = (Get (py_or (env ''RESOURCE_SERVER_URL'') ''https://xluihnzwcmxybtygewvy.supabase.co'')
            (build_headers (env ''SUPABASE_ANON_KEY''))
            (endpoint_path_of fn (final_params_of config params)) # out4, Some e4)"
    by (simp add: tf_try_def)
  show "test_function_script w4 env argv
           = \<lparr>events =
                tf_announce fn config (endpoint_path_of fn (final_params_of config params))
                  (py_or (env ''RESOURCE_SERVER_URL'') ''https://xluihnzwcmxybtygewvy.supabase.co'')
                  a4 (final_params_of config params)
                @ [Get (py_or (env ''RESOURCE_SERVER_URL'') ''https://xluihnzwcmxybtygewvy.supabase.co'')
                     (build_headers (env ''SUPABASE_ANON_KEY''))
                     (endpoint_path_of fn (final_params_of config params))]
                @ out4
                @ [Print (CHR 0x0A # emoji_cross @ '' Error occurred: '' @ exn_str e4),
                   Traceback e4],
              exit_status = 0\<rparr>"
    using test_function_run [where env = env and w = w4 and params = params, OF c assms a]
    by (simp add: test_function_script_def p t handle_exception_def)
qed

theorem exceptions_caught_at_top_level_witness:
  "demo_env ''PRIVATE_KEY'' = Some ''0x01''
   \<and> client_get (demo_world (Inl connect_error)) ''https://example.com'' [] ''/functions/v1/toolzv4''
       = Inl connect_error
   \<and> main_report (demo_world (Inr (demo_response 200 (Inl decode_error))))
         (demo_response 200 (Inl decode_error))
       = ([Print ''2. Response Status: 200''], Some decode_error)
   \<and> main_script (demo_world (Inl connect_error)) demo_env
       = \<lparr>events =
            [Print ''Initialized account: 0xA11CE'']
            @ main_announce ''/functions/v1/toolzv4'' ''https://example.com'' ''0xA11CE''
            @ [Get ''https://example.com'' [] ''/functions/v1/toolzv4'',
               Print (CHR 0x0A # emoji_cross @ '' Error occurred: All connection attempts failed''),
               Traceback connect_error],
          exit_status = 0\<rparr>
   \<and> main_script (demo_world (Inr (demo_response 200 (Inl decode_error)))) demo_env
       = \<lparr>events =
            [Print ''Initialized account: 0xA11CE'']
            @ main_announce ''/functions/v1/toolzv4'' ''https://example.com'' ''0xA11CE''
            @ [Get ''https://example.com'' [] ''/functions/v1/toolzv4'',
               Print ''2. Response Status: 200'',
               Print (CHR 0x0A # emoji_cross @ '' Error occurred: invalid start byte''),
               Traceback decode_error],
          exit_status = 0\<rparr>
   \<and> exit_status (test_function_script (demo_world (Inl connect_error)) demo_env [''toolzv4'']) = 0
   \<and> exit_status (test_function_script (demo_world (Inr (demo_response 200 (Inl decode_error))))
        demo_env [''toolzv4'']) = 0"
proof -
  let ?r = "demo_response 200 (Inl decode_error)"
  have u: "main_report (demo_world (Inr ?r)) ?r = ([Print ''2. Response Status: 200''], Some decode_error)"
    "tf_report (demo_world (Inr ?r)) ?r = ([Print ''2. Response Status: 200''], Some decode_error)"
    using report_undecoded [of ?r decode_error "demo_world (Inr ?r)"]
    by (simp_all add: demo_response_simps str_int_200)
  have b: "build_headers None = []" by (simp add: build_headers_def)
  show ?thesis
    using exceptions_caught_at_top_level [where env = demo_env and pk = "''0x01''"
        and url = "''https://example.com''" and ep = "''/functions/v1/toolzv4''"
        and ?w1.0 = "demo_world (Inl connect_error)" and ?a1.0 = "''0xA11CE''"
        and ?e1.0 = connect_error
        and ?w2.0 = "demo_world (Inr ?r)" and ?a2.0 = "''0xA11CE''" and ?r2.0 = ?r
        and ?out2.0 = "[Print ''2. Response Status: 200'']" and ?e2.0 = decode_error
        and argv = "[''toolzv4'']" and fn = "''toolzv4''" and params = "[]"
        and config = "\<lparr>description = ''IPv4 Network Connectivity Testing Tool'',
             default_params = [(''target'', ''8.8.8.8''), (''count'', ''4''), (''timeout'', ''5000'')]\<rparr>"
        and ?w3.0 = "demo_world (Inl connect_error)" and ?a3.0 = "''0xA11CE''"
        and ?e3.0 = connect_error
        and ?w4.0 = "demo_world (Inr ?r)" and ?a4.0 = "''0xA11CE''" and ?r4.0 = ?r
        and ?out4.0 = "[Print ''2. Response Status: 200'']" and ?e4.0 = decode_error]
      u
    by (simp add: demo_env_simps demo_world_simps demo_parse toolzv4_config b
        connect_error_def decode_error_def)
qed

text \<open>
  C7, as stated, fails on a response whose body cannot be read as text: reading the
  body comes before the chain on the status code, so for a 200 response with such a
  body the run prints the status line, the error and the traceback, and none of the
  three classifications.
\<close>

theorem classification_counterexample:
  "status_code (demo_response 200 (Inl decode_error)) = 200
   \<and> main_report (demo_world (Inr (demo_response 200 (Inl decode_error))))
         (demo_response 200 (Inl decode_error))
       = ([Print ''2. Response Status: 200''], Some decode_error)
   \<and> tf_report (demo_world (Inr (demo_response 200 (Inl decode_error))))
         (demo_response 200 (Inl decode_error))
       = ([Print ''2. Response Status: 200''], Some decode_error)
   \<and> filter is_classification
         (events (main_script (demo_world (Inr (demo_response 200 (Inl decode_error)))) demo_env))
       = []
   \<and> filter is_classification
         (events (test_function_script (demo_world (Inr (demo_response 200 (Inl decode_error))))
                    demo_env [''toolzv4'']))
       = []"
proof -
  let ?r = "demo_response 200 (Inl decode_error)"
  let ?w = "demo_world (Inr ?r)"
  have u: "main_report ?w ?r = ([Print ''2. Response Status: 200''], Some decode_error)"
    "tf_report ?w ?r = ([Print ''2. Response Status: 200''], Some decode_error)"
    using report_undecoded [of ?r decode_error ?w]
    by (simp_all add: demo_response_simps str_int_200)
  have ms: "filter is_classification (events (main_script ?w demo_env)) = []"
    using main_script_run [of demo_env "''0x01''" "''https://example.com''"
        "''/functions/v1/toolzv4''" ?w "''0xA11CE''"]
    by (simp add: demo_env_simps demo_world_simps main_try_def u handle_exception_def
        main_announce_def verified_line_def failed_line_def emoji_globe_def emoji_antenna_def
        emoji_lock_def emoji_check_def emoji_warning_def emoji_cross_def rule60_head)
  have ts: "filter is_classification (events (test_function_script ?w demo_env [''toolzv4''])) = []"
    using test_function_run [where env = demo_env and w = ?w and params = "[]",
        OF toolzv4_config demo_env_simps(1)]
    by (simp add: test_function_script_def demo_parse demo_world_simps tf_try_def u
        handle_exception_def tf_announce_def verified_line_def failed_line_def
        emoji_globe_def emoji_antenna_def emoji_lock_def emoji_check_def emoji_warning_def
        emoji_cross_def emoji_test_tube_def emoji_memo_def emoji_clipboard_def rule60_head)
  show ?thesis
    using u ms ts by (simp add: demo_response_simps)
qed

text \<open>
  C7, amended. For every response whose body is read as text, the report of either
  script holds, after the status line and the details of the response, the lines of
  the chain on the status code, which depend on the status code only; among these
  lines exactly one is a classification: verified for 200, failed negotiation for 402,
  unexpected (with the code) for any other status. The three classifications differ
  from one another.
\<close>

theorem classification_by_status:
  "(content_decoded r = Inr body
     \<longrightarrow> fst (main_report w r)
           = Print (''2. Response Status: '' @ str_int (status_code r)) # report_details w r body
               @ main_verification (status_code r) @ fst (settlement w r main_no_settlement)
       \<and> fst (tf_report w r)
           = Print (''2. Response Status: '' @ str_int (status_code r)) # report_details w r body
               @ tf_verification (status_code r) @ fst (settlement w r tf_no_settlement))
   \<and> filter is_classification (main_verification s)
       = [if s = 200 then verified_line else if s = 402 then failed_line else unexpected_line s]
   \<and> filter is_classification (tf_verification s)
       = [if s = 200 then verified_line else if s = 402 then failed_line else unexpected_line s]
   \<and> verified_line \<noteq> failed_line \<and> verified_line \<noteq> unexpected_line s'
   \<and> failed_line \<noteq> unexpected_line s'"
proof (intro conjI impI)
  assume d: "content_decoded r = Inr body"
  show "fst (main_report w r)
           = Print (''2. Response Status: '' @ str_int (status_code r)) # report_details w r body
               @ main_verification (status_code r) @ fst (settlement w r main_no_settlement)"
    by (simp add: main_report_decoded [OF d])
  show "fst (tf_report w r)
           = Print (''2. Response Status: '' @ str_int (status_code r)) # report_details w r body
               @ tf_verification (status_code r) @ fst (settlement w r tf_no_settlement)"
    by (simp add: tf_report_decoded [OF d])
next
  show "filter is_classification (main_verification s)
       = [if s = 200 then verified_line else if s = 402 then failed_line else unexpected_line s]"
    by (rule main_classification)
next
  show "filter is_classification (tf_verification s)
       = [if s = 200 then verified_line else if s = 402 then failed_line else unexpected_line s]"
    by (rule tf_classification)
next
  show "verified_line \<noteq> failed_line" using classifications_distinct [of s'] by simp
next
  show "verified_line \<noteq> unexpected_line s'" using classifications_distinct [of s'] by simp
next
  show "failed_line \<noteq> unexpected_line s'" using classifications_distinct [of s'] by simp
qed

theorem classification_by_status_witness:
  "content_decoded (demo_response 500 (Inr ''ok'')) = Inr ''ok''
   \<and> fst (main_report (demo_world (Inl connect_error)) (demo_response 500 (Inr ''ok'')))
       = Print ''2. Response Status: 500''
           # report_details (demo_world (Inl connect_error)) (demo_response 500 (Inr ''ok'')) ''ok''
           @ [Print (emoji_warning @ ''  Unexpected status code: 500'')]
           @ settlement_block demo_settlement
   \<and> filter is_classification (main_verification 200) = [verified_line]
   \<and> filter is_classification (tf_verification 402) = [failed_line]
   \<and> filter is_classification (tf_verification 500) = [unexpected_line 500]"
proof -
  have a: "content_decoded (demo_response 500 (Inr ''ok'')) = Inr ''ok''"
    by (simp add: demo_response_simps)
  have v: "main_verification 500 = [Print (emoji_warning @ ''  Unexpected status code: 500'')]"
    by (simp add: main_verification_def str_int_500)
  show ?thesis
    using classification_by_status [of "demo_response 500 (Inr ''ok'')" "''ok''"
        "demo_world (Inl connect_error)" 200 500]
      classification_by_status [of "demo_response 500 (Inr ''ok'')" "''ok''"
        "demo_world (Inl connect_error)" 402 500]
      classification_by_status [of "demo_response 500 (Inr ''ok'')" "''ok''"
        "demo_world (Inl connect_error)" 500 500] a
    by (simp add: demo_response_simps v demo_settlement_run str_int_500)
qed

text \<open>
  C8, as stated, fails on a 200 response with a well-formed settlement header whose
  body cannot be read as text: the run stops at the body, before the settlement
  header is looked at, and no settlement confirmation block is printed.
\<close>

theorem settlement_block_counterexample:
  "status_code (demo_response 200 (Inl decode_error)) = 200
   \<and> headers_get (demo_response 200 (Inl decode_error)) ''X-Payment-Response'' = Some ''eyJ9''
   \<and> decode_x_payment_response (demo_world (Inr (demo_response 200 (Inl decode_error)))) ''eyJ9''
       = Inr (Dict demo_settlement)
   \<and> fst (main_report (demo_world (Inr (demo_response 200 (Inl decode_error))))
            (demo_response 200 (Inl decode_error)))
       = [Print ''2. Response Status: 200'']
   \<and> fst (tf_report (demo_world (Inr (demo_response 200 (Inl decode_error))))
            (demo_response 200 (Inl decode_error)))
       = [Print ''2. Response Status: 200'']
   \<and> settlement_title
       \<notin> set (events (main_script (demo_world (Inr (demo_response 200 (Inl decode_error))))
                  demo_env))"
proof -
  let ?r = "demo_response 200 (Inl decode_error)"
  let ?w = "demo_world (Inr ?r)"
  have u: "main_report ?w ?r = ([Print ''2. Response Status: 200''], Some decode_error)"
    "tf_report ?w ?r = ([Print ''2. Response Status: 200''], Some decode_error)"
    using report_undecoded [of ?r decode_error ?w]
    by (simp_all add: demo_response_simps str_int_200)
  have ms: "settlement_title \<notin> set (events (main_script ?w demo_env))"
    using main_script_run [of demo_env "''0x01''" "''https://example.com''"
        "''/functions/v1/toolzv4''" ?w "''0xA11CE''"]
    by (simp add: demo_env_simps demo_world_simps main_try_def u handle_exception_def
        main_announce_def settlement_title_def emoji_globe_def emoji_antenna_def
        emoji_lock_def emoji_check_def emoji_cross_def rule60_head)
  show ?thesis
    using u ms by (simp add: demo_response_simps demo_world_simps)
qed

text \<open>
  C8, amended. For every response with status 200 whose body is read as text and that
  carries a settlement header decoding to a dictionary, the report of either script
  ends with the settlement confirmation block: its title and the transaction, network
  and payer of the decoded dictionary, each replaced by \<open>N/A\<close> when the dictionary has
  no such field; no exception is raised.
\<close>

theorem settlement_block_printed:
  "status_code r = 200 \<and> content_decoded r = Inr body
     \<and> headers_get r ''X-Payment-Response'' = Some h
     \<and> decode_x_payment_response w h = Inr (Dict m)
   \<longrightarrow> main_report w r
         = (Print ''2. Response Status: 200'' # report_details w r body
              @ main_verification 200
              @ [Print (CHR 0x0A # emoji_check @ '' Payment Settlement Confirmed:''),
                 Print (''   Transaction: ''
                        @ (case m ''transaction'' of Some v \<Rightarrow> v | None \<Rightarrow> ''N/A'')),
                 Print (''   Network: '' @ (case m ''network'' of Some v \<Rightarrow> v | None \<Rightarrow> ''N/A'')),
                 Print (''   Payer: '' @ (case m ''payer'' of Some v \<Rightarrow> v | None \<Rightarrow> ''N/A''))],
            None)
     \<and> tf_report w r
         = (Print ''2. Response Status: 200'' # report_details w r body
              @ tf_verification 200
              @ [Print (CHR 0x0A # emoji_check @ '' Payment Settlement Confirmed:''),
                 Print (''   Transaction: ''
                        @ (case m ''transaction'' of Some v \<Rightarrow> v | None \<Rightarrow> ''N/A'')),
                 Print (''   Network: '' @ (case m ''network'' of Some v \<Rightarrow> v | None \<Rightarrow> ''N/A'')),
                 Print (''   Payer: '' @ (case m ''payer'' of Some v \<Rightarrow> v | None \<Rightarrow> ''N/A''))],
            None)"
proof (intro impI)
  assume h: "status_code r = 200 \<and> content_decoded r = Inr body
     \<and> headers_get r ''X-Payment-Response'' = Some h
     \<and> decode_x_payment_response w h = Inr (Dict m)"
  then have d: "content_decoded r = Inr body"
    and p: "headers_get r ''X-Payment-Response'' = Some h"
    and q: "decode_x_payment_response w h = Inr (Dict m)"
    and s: "status_code r = 200" by simp_all
  have b: "settlement_block m
      = [Print (CHR 0x0A # emoji_check @ '' Payment Settlement Confirmed:''),
         Print (''   Transaction: '' @ (case m ''transaction'' of Some v \<Rightarrow> v | None \<Rightarrow> ''N/A'')),
         Print (''   Network: '' @ (case m ''network'' of Some v \<Rightarrow> v | None \<Rightarrow> ''N/A'')),
         Print (''   Payer: '' @ (case m ''payer'' of Some v \<Rightarrow> v | None \<Rightarrow> ''N/A''))]"
    by (simp add: settlement_block_def settlement_title_def dict_get_def)
  show "main_report w r
         = (Print ''2. Response Status: 200'' # report_details w r body
              @ main_verification 200
              @ [Print (CHR 0x0A # emoji_check @ '' Payment Settlement Confirmed:''),
                 Print (''   Transaction: ''
                        @ (case m ''transaction'' of Some v \<Rightarrow> v | None \<Rightarrow> ''N/A'')),
                 Print (''   Network: '' @ (case m ''network'' of Some v \<Rightarrow> v | None \<Rightarrow> ''N/A'')),
                 Print (''   Payer: '' @ (case m ''payer'' of Some v \<Rightarrow> v | None \<Rightarrow> ''N/A''))],
            None)
     \<and> tf_report w r
         = (Print ''2. Response Status: 200'' # report_details w r body
              @ tf_verification 200
              @ [Print (CHR 0x0A # emoji_check @ '' Payment Settlement Confirmed:''),
                 Print (''   Transaction: ''
                        @ (case m ''transaction'' of Some v \<Rightarrow> v | None \<Rightarrow> ''N/A'')),
                 Print (''   Network: '' @ (case m ''network'' of Some v \<Rightarrow> v | None \<Rightarrow> ''N/A'')),
                 Print (''   Payer: '' @ (case m ''payer'' of Some v \<Rightarrow> v | None \<Rightarrow> ''N/A''))],
            None)"
    by (simp add: main_report_decoded [OF d] tf_report_decoded [OF d] settlement_dict [OF p q]
        s str_int_200 b)
qed

theorem settlement_block_printed_witness:
  "status_code (demo_response 200 (Inr ''ok'')) = 200
   \<and> content_decoded (demo_response 200 (Inr ''ok'')) = Inr ''ok''
   \<and> headers_get (demo_response 200 (Inr ''ok'')) ''X-Payment-Response'' = Some ''eyJ9''
   \<and> decode_x_payment_response (demo_world (Inl connect_error)) ''eyJ9'' = Inr (Dict demo_settlement)
   \<and> main_report (demo_world (Inl connect_error)) (demo_response 200 (Inr ''ok''))
       = (Print ''2. Response Status: 200''
            # report_details (demo_world (Inl connect_error)) (demo_response 200 (Inr ''ok'')) ''ok''
            @ main_verification 200
            @ [Print (CHR 0x0A # emoji_check @ '' Payment Settlement Confirmed:''),
               Print ''   Transaction: 0xabc'', Print ''   Network: base'', Print ''   Payer: N/A''],
          None)"
proof -
  have a: "status_code (demo_response 200 (Inr ''ok'')) = 200
      \<and> content_decoded (demo_response 200 (Inr ''ok'')) = Inr ''ok''
      \<and> headers_get (demo_response 200 (Inr ''ok'')) ''X-Payment-Response'' = Some ''eyJ9''
      \<and> decode_x_payment_response (demo_world (Inl connect_error)) ''eyJ9'' = Inr (Dict demo_settlement)"
    by (simp add: demo_response_simps demo_world_simps)
  show ?thesis
    using settlement_block_printed [of "demo_response 200 (Inr ''ok'')" "''ok''" "''eyJ9''"
        "demo_world (Inl connect_error)" demo_settlement] a
    by (simp add: demo_settlement_def)
qed

text \<open>
  C9. Invoked with no command-line arguments, the second script prints the usage line
  and the whole registry (every function name with its description and its default
  parameters), exits with status 1 and makes no network call, whatever the environment
  and the collaborators are.
\<close>

theorem no_arguments_prints_registry:
  "test_function_script w env []
     = \<lparr>events =
          [Print ''Usage: python test_function.py <function_name> [param=value ...]'',
           Print (CHR 0x0A # ''Available functions:''),
           Print ''  toolzv4: IPv4 Network Connectivity Testing Tool'',
           Print ''    Default params: {'target': '8.8.8.8', 'count': '4', 'timeout': '5000'}'',
           Print ''  url-qr-code-generator: URL QR Code Generator'',
           Print ''    Default params: {'url': 'https://example.com', 'size': '200'}'',
           Print ''  email-validator: Email Validator - Validates email address format using RFC-style patterns'',
           Print ''    Default params: {'email': 'user@example.com'}''],
        exit_status = 1\<rparr>
   \<and> network_calls (test_function_script w env []) = []
   \<and> exit_status (test_function_script w env []) \<noteq> 0"
proof -
  have "test_function_script w env [] = \<lparr>events = usage, exit_status = 1\<rparr>"
    by (simp add: test_function_script_def parse_args_def)
  then show ?thesis
    by (simp add: usage_lines network_calls_def)
qed

text \<open>
  C10, as stated, fails when no command-line token is given: the check for an empty
  argument list comes first, so the run prints the usage and exits with status 1 also
  under an override that names no registered function.
\<close>

theorem unknown_override_counterexample:
  "[''FUNCTION_NAME'' \<mapsto> ''bogus''] ''FUNCTION_NAME'' = Some ''bogus''
   \<and> ''bogus'' \<notin> set (dict_keys FUNCTION_CONFIGS)
   \<and> test_function_script (demo_world (Inl connect_error)) [''FUNCTION_NAME'' \<mapsto> ''bogus''] []
       = \<lparr>events = usage, exit_status = 1\<rparr>"
  by (simp add: test_function_script_def parse_args_def registry_keys)

text \<open>
  C10, amended. If the environment override for the function name is set to a
  (non-empty) name that is not in the registry and at least one command-line token is
  given, argument parsing accepts the name and reads every token as a candidate
  \<open>key=value\<close> parameter; the request routine then prints the unknown-function error and
  the run ends with exit status 0 and no network call. Without the override, an
  unregistered first token ends the run with exit status 1.
\<close>

theorem unknown_override_returns_normally:
  "(env ''FUNCTION_NAME'' = Some name \<and> name \<noteq> [] \<and> name \<notin> set (dict_keys FUNCTION_CONFIGS)
      \<and> argv \<noteq> []
     \<longrightarrow> parse_args env argv = Inr (name, parse_params argv [])
       \<and> test_function_script w env argv
           = \<lparr>events =
                [Print (emoji_cross @ '' Unknown function: '' @ name),
                 Print ''Available functions: ['toolzv4', 'url-qr-code-generator', 'email-validator']''],
              exit_status = 0\<rparr>
       \<and> network_calls (test_function_script w env argv) = [])
   \<and> (\<not> truthy (env' ''FUNCTION_NAME'') \<and> first \<notin> set (dict_keys FUNCTION_CONFIGS)
     \<longrightarrow> test_function_script w' env' (first # rest)
           = \<lparr>events =
                [Print (''Error: '' @ [CHR 0x27] @ first @ [CHR 0x27] @ '' is not a known function.''),
                 Print ''Available functions: ['toolzv4', 'url-qr-code-generator', 'email-validator']''],
              exit_status = 1\<rparr>)"
proof (intro conjI impI)
  assume h: "env ''FUNCTION_NAME'' = Some name \<and> name \<noteq> []
      \<and> name \<notin> set (dict_keys FUNCTION_CONFIGS) \<and> argv \<noteq> []"
  then show p: "parse_args env argv = Inr (name, parse_params argv [])"
    by (simp add: parse_args_override)
  from h have u: "map_of FUNCTION_CONFIGS name = None"
    by (simp add: unregistered)
  show t: "test_function_script w env argv
      = \<lparr>events =
           [Print (emoji_cross @ '' Unknown function: '' @ name),
            Print ''Available functions: ['toolzv4', 'url-qr-code-generator', 'email-validator']''],
         exit_status = 0\<rparr>"
    by (simp add: test_function_script_def p test_function_unknown [OF u])
  show "network_calls (test_function_script w env argv) = []"
    by (simp add: t network_calls_def)
next
  assume h: "\<not> truthy (env' ''FUNCTION_NAME'') \<and> first \<notin> set (dict_keys FUNCTION_CONFIGS)"
  then have f: "py_or (env' ''FUNCTION_NAME'') first = first"
    by (cases "env' ''FUNCTION_NAME''") simp_all
  from h have "parse_args env' (first # rest)
      = Inl \<lparr>events =
           [Print (''Error: '' @ [CHR 0x27] @ first @ [CHR 0x27] @ '' is not a known function.''),
            Print (''Available functions: '' @ repr_list (dict_keys FUNCTION_CONFIGS))],
         exit_status = 1\<rparr>"
    by (simp add: parse_args_def Let_def f)
  then show "test_function_script w' env' (first # rest)
      = \<lparr>events =
           [Print (''Error: '' @ [CHR 0x27] @ first @ [CHR 0x27] @ '' is not a known function.''),
            Print ''Available functions: ['toolzv4', 'url-qr-code-generator', 'email-validator']''],
         exit_status = 1\<rparr>"
    by (simp add: test_function_script_def repr_registry_keys)
qed

theorem unknown_override_returns_normally_witness:
  "[''FUNCTION_NAME'' \<mapsto> ''bogus''] ''FUNCTION_NAME'' = Some ''bogus''
   \<and> ''bogus'' \<notin> set (dict_keys FUNCTION_CONFIGS)
   \<and> \<not> truthy (Map.empty ''FUNCTION_NAME'')
   \<and> parse_args [''FUNCTION_NAME'' \<mapsto> ''bogus''] [''toolzv4'', ''target=1.2.3.4'']
       = Inr (''bogus'', [(''target'', ''1.2.3.4'')])
   \<and> test_function_script (demo_world (Inl connect_error)) [''FUNCTION_NAME'' \<mapsto> ''bogus'']
         [''toolzv4'', ''target=1.2.3.4'']
       = \<lparr>events =
            [Print (emoji_cross @ '' Unknown function: bogus''),
             Print ''Available functions: ['toolzv4', 'url-qr-code-generator', 'email-validator']''],
          exit_status = 0\<rparr>
   \<and> network_calls (test_function_script (demo_world (Inl connect_error))
         [''FUNCTION_NAME'' \<mapsto> ''bogus''] [''toolzv4'', ''target=1.2.3.4'']) = []
   \<and> test_function_script (demo_world (Inl connect_error)) Map.empty [''bogus'', ''target=1.2.3.4'']
       = \<lparr>events =
            [Print ''Error: 'bogus' is not a known function.'',
             Print ''Available functions: ['toolzv4', 'url-qr-code-generator', 'email-validator']''],
          exit_status = 1\<rparr>"
proof -
  have a: "[''FUNCTION_NAME'' \<mapsto> ''bogus''] ''FUNCTION_NAME'' = Some ''bogus''" by simp
  have b: "''bogus'' \<notin> set (dict_keys FUNCTION_CONFIGS)" by (simp add: registry_keys)
  have c: "parse_params [''toolzv4'', ''target=1.2.3.4''] [] = [(''target'', ''1.2.3.4'')]"
    by (simp add: split_eq_def)
  show ?thesis
    using unknown_override_returns_normally [of "[''FUNCTION_NAME'' \<mapsto> ''bogus'']" "''bogus''"
        "[''toolzv4'', ''target=1.2.3.4'']" "demo_world (Inl connect_error)" Map.empty "''bogus''"
        "demo_world (Inl connect_error)" "[''target=1.2.3.4'']"] a b c
    by (simp add: network_calls_def)
qed

end
